theory Spec2Isabelle
  imports Main "HOL-Library.AList"
begin

section \<open>The roles router of a2: data model\<close>

text \<open>
  The router (the 766-line routes file) is a set of Express handlers over an access
  control handle \<open>req.app.acl\<close> and an application collection \<open>req.app.db\<close>.
  Both are injected objects: the handlers are embedded with the two backends as
  parameters (records of operations over an abstract store), and every backend call
  is recorded in a call log, in the order in which the handler issues it. The
  objects the handlers read by key are plain JavaScript objects, so a read goes
  through \<open>Object.prototype\<close>, which is part of the world.
\<close>

subsection \<open>Errors\<close>

text \<open>
  \<open>HttpError n msg\<close> is the router's own \<open>new Error(msg)\<close> with
  \<open>err.status = n\<close>. The other constructors are errors handed over by a backend.
\<close>

datatype error =
    HttpError nat string
  | NotFoundError string
  | ForbiddenError string
  | StoreError string

fun status :: "error \<Rightarrow> nat option" where
  "status (HttpError n msg) = Some n"
| "status (NotFoundError msg) = Some 400"
| "status (ForbiddenError msg) = Some 403"
| "status (StoreError msg) = None"

subsection \<open>Requests\<close>

text \<open>
  The request body as the handlers' API documentation types it: \<open>roles\<close> a string,
  \<open>resources\<close> and \<open>permissions\<close> arrays of strings, \<open>allows\<close> an array of
  objects whose \<open>resources\<close> is a string or an array of strings. A field that is
  absent (\<open>undefined\<close>) is \<open>None\<close>.
\<close>

datatype strs = One string | Many "string list"

datatype allow_entry = AllowEntry (entry_resources: strs) (entry_permissions: "string list")

record body =
  roles :: "string option"
  allows :: "allow_entry list option"
  resources :: "string list option"
  permissions :: "string list option"

record request =
  params_roleName :: "string option"
  params_0 :: "string option"
  params_permissionName :: "string option"
  body :: body

text \<open>JavaScript truthiness: the empty string is falsy, every array is truthy.\<close>

definition truthy_str :: "string option \<Rightarrow> bool" where
  "truthy_str v = (case v of None \<Rightarrow> False | Some s \<Rightarrow> s \<noteq> [])"

definition truthy_arr :: "'a list option \<Rightarrow> bool" where
  "truthy_arr v = (case v of None \<Rightarrow> False | Some xs \<Rightarrow> True)"

text \<open>\<open>v || ''\<close> on a string that may be undefined.\<close>

definition or_empty :: "string option \<Rightarrow> string" where
  "or_empty v = (case v of None \<Rightarrow> [] | Some s \<Rightarrow> s)"

text \<open>
  An array that may be undefined, read as empty when it is: \<open>data.routes\<close> after
  \<open>if (!data.routes) { data.routes = []; }\<close>, and a body field after the validation
  task has found it truthy (where \<open>None\<close> is not reached).
\<close>

definition or_nil :: "'a list option \<Rightarrow> 'a list" where
  "or_nil v = (case v of None \<Rightarrow> [] | Some xs \<Rightarrow> xs)"

text \<open>\<open>[].concat(x)\<close>: a string is appended as one element, an array element-wise.\<close>

fun strs_list :: "strs \<Rightarrow> string list" where
  "strs_list (One s) = [s]"
| "strs_list (Many xs) = xs"

subsection \<open>Plain objects and their prototype\<close>

text \<open>
  What a property read \<open>obj[key]\<close> of a plain object can give when the object's
  own properties are arrays of strings: undefined, an own array, a function
  inherited from \<open>Object.prototype\<close> (named by its key there), or
  \<open>Object.prototype\<close> itself (the key \<open>__proto__\<close>).
\<close>

datatype jsval = Undefined | Arr "string list" | Builtin string | ObjectPrototype

text \<open>The properties of \<open>Object.prototype\<close> in Node, in the order of its own names.\<close>

definition object_prototype :: "(string \<times> jsval) list" where
  "object_prototype =
     [(''constructor'', Builtin ''constructor''),
      (''__defineGetter__'', Builtin ''__defineGetter__''),
      (''__defineSetter__'', Builtin ''__defineSetter__''),
      (''hasOwnProperty'', Builtin ''hasOwnProperty''),
      (''__lookupGetter__'', Builtin ''__lookupGetter__''),
      (''__lookupSetter__'', Builtin ''__lookupSetter__''),
      (''isPrototypeOf'', Builtin ''isPrototypeOf''),
      (''propertyIsEnumerable'', Builtin ''propertyIsEnumerable''),
      (''toString'', Builtin ''toString''),
      (''valueOf'', Builtin ''valueOf''),
      (''__proto__'', ObjectPrototype),
      (''toLocaleString'', Builtin ''toLocaleString'')]"

text \<open>The \<open>length\<close> of each of these functions (its number of parameters).\<close>

definition function_length :: "(string \<times> nat) list" where
  "function_length =
     [(''constructor'', 1), (''__defineGetter__'', 2), (''__defineSetter__'', 2),
      (''hasOwnProperty'', 1), (''__lookupGetter__'', 1), (''__lookupSetter__'', 1),
      (''isPrototypeOf'', 1), (''propertyIsEnumerable'', 1), (''toString'', 0),
      (''valueOf'', 0), (''toLocaleString'', 0)]"

text \<open>
  The part of the JavaScript heap that \<open>updateAppRoutes\<close> can write to and that
  outlives a request: a \<open>routes\<close> array set on \<open>Object.prototype\<close>, and a
  \<open>routes\<close> array set on one of its functions.
\<close>

record js_heap =
  proto_routes :: "string list option"
  builtin_routes :: "(string \<times> string list) list"

definition js_inherited :: "js_heap \<Rightarrow> string \<Rightarrow> jsval" where
  "js_inherited h k =
     (case map_of object_prototype k of
        Some v \<Rightarrow> v
      | None \<Rightarrow>
          if k = ''routes''
          then (case proto_routes h of None \<Rightarrow> Undefined | Some rs \<Rightarrow> Arr rs)
          else Undefined)"

text \<open>\<open>obj[k]\<close> for a plain object whose own properties are the pairs of \<open>obj\<close>.\<close>

definition js_get :: "js_heap \<Rightarrow> (string \<times> string list) list \<Rightarrow> string \<Rightarrow> jsval" where
  "js_get h obj k = (case map_of obj k of Some ps \<Rightarrow> Arr ps | None \<Rightarrow> js_inherited h k)"

text \<open>\<open>v.length\<close>, \<open>None\<close> where it is undefined (\<open>Object.prototype\<close> has none).\<close>

fun js_length :: "jsval \<Rightarrow> nat option" where
  "js_length Undefined = None"
| "js_length (Arr ps) = Some (length ps)"
| "js_length (Builtin f) = map_of function_length f"
| "js_length ObjectPrototype = None"

subsection \<open>Replies\<close>

text \<open>
  \<open>Json p\<close> is \<open>res.json(p)\<close> / \<open>res.send(p)\<close>, where \<open>ReadValue v\<close> is the
  value of a property read handed to it as it is; \<open>Next e\<close> is \<open>next(e)\<close>;
  \<open>Uncaught\<close> is an exception thrown out of a task or a callback; \<open>Pending\<close> is
  a request whose final callback is never invoked.
\<close>

datatype payload =
    Roles "string list"
  | Resources "(string \<times> string list) list"
  | ReadValue jsval

datatype reply = Json payload | Next error | Uncaught | Pending

subsection \<open>The two backends and the call log\<close>

text \<open>
  \<open>acl.allow\<close> has two call shapes: an array of objects, or a role, resources and
  permissions. \<open>whatResources\<close> answers with a plain object from resource to
  permission array, kept as the association list of its own properties and read
  with \<open>js_get\<close>. The third argument of \<open>removeAllow\<close> is a permission name or
  the value of a property read.
\<close>

datatype allow_args = AllowObjs "body list" | AllowTriple string strs "string list"

datatype removal = Str string | Val jsval

record 's acl =
  listRoles :: "'s \<Rightarrow> error + string list"
  existsRole :: "string \<Rightarrow> 's \<Rightarrow> error option"
  allow :: "allow_args \<Rightarrow> 's \<Rightarrow> error option \<times> 's"
  whatResources :: "string \<Rightarrow> 's \<Rightarrow> error + (string \<times> string list) list"
  removeRole :: "string \<Rightarrow> 's \<Rightarrow> error option \<times> 's"
  removeAllow :: "string \<Rightarrow> string \<Rightarrow> removal \<Rightarrow> 's \<Rightarrow> error option \<times> 's"

text \<open>
  The application documents: \<open>findOne({prefix: p}, 'routes', cb)\<close> answers with an
  error, with \<open>null\<close> or with a document whose \<open>routes\<close> may be missing;
  \<open>data.save()\<close> is called without a callback, so whatever it does to the
  collection is all that is left of it.
\<close>

datatype app_doc = AppDoc (routes: "string list option")

record 'r app_db =
  findOne :: "string \<Rightarrow> 'r \<Rightarrow> error + app_doc option"
  save :: "string \<Rightarrow> app_doc \<Rightarrow> 'r \<Rightarrow> 'r"

datatype call =
    ListRoles
  | ExistsRole string
  | Allow allow_args
  | WhatResources string
  | RemoveRole string
  | RemoveAllow string string removal
  | FindOne string
  | Save string app_doc

text \<open>The operations of the store that write: \<open>allow\<close>, \<open>removeRole\<close>, \<open>removeAllow\<close>.\<close>

fun mutation :: "call \<Rightarrow> bool" where
  "mutation (Allow a) = True"
| "mutation (RemoveRole r) = True"
| "mutation (RemoveAllow r res ps) = True"
| "mutation c = False"

record ('s, 'r) world =
  store :: 's
  apps :: 'r
  heap :: js_heap
  calls :: "call list"

definition log :: "call \<Rightarrow> ('s, 'r) world \<Rightarrow> ('s, 'r) world" where
  "log c w = w\<lparr>calls := calls w @ [c]\<rparr>"

definition acl_listRoles ::
  "'s acl \<Rightarrow> ('s, 'r) world \<Rightarrow> (error + string list) \<times> ('s, 'r) world" where
  "acl_listRoles acl w = (listRoles acl (store w), log ListRoles w)"

definition acl_existsRole ::
  "'s acl \<Rightarrow> string \<Rightarrow> ('s, 'r) world \<Rightarrow> error option \<times> ('s, 'r) world" where
  "acl_existsRole acl r w = (existsRole acl r (store w), log (ExistsRole r) w)"

definition acl_allow ::
  "'s acl \<Rightarrow> allow_args \<Rightarrow> ('s, 'r) world \<Rightarrow> error option \<times> ('s, 'r) world" where
  "acl_allow acl a w =
     (case allow acl a (store w) of
        (err, s') \<Rightarrow> (err, log (Allow a) (w\<lparr>store := s'\<rparr>)))"

definition acl_whatResources ::
  "'s acl \<Rightarrow> string \<Rightarrow> ('s, 'r) world
     \<Rightarrow> (error + (string \<times> string list) list) \<times> ('s, 'r) world" where
  "acl_whatResources acl r w = (whatResources acl r (store w), log (WhatResources r) w)"

definition acl_removeRole ::
  "'s acl \<Rightarrow> string \<Rightarrow> ('s, 'r) world \<Rightarrow> error option \<times> ('s, 'r) world" where
  "acl_removeRole acl r w =
     (case removeRole acl r (store w) of
        (err, s') \<Rightarrow> (err, log (RemoveRole r) (w\<lparr>store := s'\<rparr>)))"

definition acl_removeAllow ::
  "'s acl \<Rightarrow> string \<Rightarrow> string \<Rightarrow> removal \<Rightarrow> ('s, 'r) world
     \<Rightarrow> error option \<times> ('s, 'r) world" where
  "acl_removeAllow acl r res ps w =
     (case removeAllow acl r res ps (store w) of
        (err, s') \<Rightarrow> (err, log (RemoveAllow r res ps) (w\<lparr>store := s'\<rparr>)))"

definition db_findOne ::
  "'r app_db \<Rightarrow> string \<Rightarrow> ('s, 'r) world \<Rightarrow> (error + app_doc option) \<times> ('s, 'r) world" where
  "db_findOne db p w = (findOne db p (apps w), log (FindOne p) w)"

definition db_save ::
  "'r app_db \<Rightarrow> string \<Rightarrow> app_doc \<Rightarrow> ('s, 'r) world \<Rightarrow> ('s, 'r) world" where
  "db_save db p d w = log (Save p d) (w\<lparr>apps := save db p d (apps w)\<rparr>)"

section \<open>updateAppRoutes\<close>

text \<open>
  The resources of the request: the concatenation of the \<open>resources\<close> of every
  \<open>allows\<close> entry, or \<open>req.body.resources\<close>. When \<open>allows\<close> is falsy and
  \<open>resources\<close> is undefined, \<open>resources.forEach\<close> throws a TypeError: \<open>None\<close>.
\<close>

definition body_resources :: "body \<Rightarrow> string list option" where
  "body_resources b =
     (if truthy_arr (allows b)
      then Some (foldl (\<lambda>acc obj. acc @ strs_list (entry_resources obj)) [] (or_nil (allows b)))
      else resources b)"

text \<open>\<open>resc[0] !== '/'\<close> is true of the empty string, whose \<open>[0]\<close> is undefined.\<close>

fun leading_slash :: "string \<Rightarrow> bool" where
  "leading_slash [] = False"
| "leading_slash (c # cs) = (c = CHR ''/'')"

text \<open>\<open>resc.split('/')[0]\<close>.\<close>

definition appName :: "string \<Rightarrow> string" where
  "appName resc = takeWhile (\<lambda>c. c \<noteq> CHR ''/'') resc"

text \<open>
  \<open>newAppRoutes\<close> is a plain object \<open>{}\<close>. What it holds under a key is either
  an object \<open>{}\<close> made by the loop, with its own \<open>routes\<close> array if it has one,
  or a value that the read \<open>newAppRoutes[appName]\<close> found in \<open>Object.prototype\<close>
  (truthy, so no object is made): one of its functions, \<open>Object.prototype\<close>
  itself, or the \<open>routes\<close> array an earlier resource has set there. Its own
  properties are kept as an association list in insertion order, which is the
  order of \<open>Object.getOwnPropertyNames\<close> for keys that are not array indices.
\<close>

datatype app = NewObject "string list option" | Inherited jsval

text \<open>
  \<open>app.routes\<close>: the own array of an object or of a function, else the one of
  \<open>Object.prototype\<close>, which every object, function and array inherits.
\<close>

fun app_routes :: "js_heap \<Rightarrow> app \<Rightarrow> string list option" where
  "app_routes h (NewObject (Some rs)) = Some rs"
| "app_routes h (NewObject None) = proto_routes h"
| "app_routes h (Inherited (Builtin f)) =
     (case map_of (builtin_routes h) f of Some rs \<Rightarrow> Some rs | None \<Rightarrow> proto_routes h)"
| "app_routes h (Inherited v) = proto_routes h"

text \<open>
  \<open>if (!app.routes) { app.routes = []; } app.routes.push(resc)\<close>: the array is
  made on \<open>app\<close> itself when \<open>app.routes\<close> reads undefined, and the push goes to
  the array that \<open>app.routes\<close> reads, wherever it lives.
\<close>

fun push_onto :: "string \<Rightarrow> app \<Rightarrow> js_heap \<Rightarrow> app \<times> js_heap" where
  "push_onto resc (NewObject (Some rs)) h = (NewObject (Some (rs @ [resc])), h)"
| "push_onto resc (NewObject None) h =
     (case proto_routes h of
        None \<Rightarrow> (NewObject (Some [resc]), h)
      | Some ps \<Rightarrow> (NewObject None, h\<lparr>proto_routes := Some (ps @ [resc])\<rparr>))"
| "push_onto resc (Inherited (Builtin f)) h =
     (case map_of (builtin_routes h) f of
        Some rs \<Rightarrow>
          (Inherited (Builtin f),
           h\<lparr>builtin_routes := AList.update f (rs @ [resc]) (builtin_routes h)\<rparr>)
      | None \<Rightarrow>
          (case proto_routes h of
             None \<Rightarrow>
               (Inherited (Builtin f),
                h\<lparr>builtin_routes := AList.update f [resc] (builtin_routes h)\<rparr>)
           | Some ps \<Rightarrow> (Inherited (Builtin f), h\<lparr>proto_routes := Some (ps @ [resc])\<rparr>)))"
| "push_onto resc (Inherited v) h =
     (Inherited v, h\<lparr>proto_routes := Some (or_nil (proto_routes h) @ [resc])\<rparr>)"

text \<open>
  \<open>var app = newAppRoutes[appName] = newAppRoutes[appName] ? newAppRoutes[appName] : {}\<close>.
  The assignment makes an own property, except for the key \<open>__proto__\<close>, where it
  calls the setter of the prototype and makes none.
\<close>

definition read_app :: "js_heap \<Rightarrow> (string \<times> app) list \<Rightarrow> string \<Rightarrow> app" where
  "read_app h own k =
     (case map_of own k of
        Some app \<Rightarrow> app
      | None \<Rightarrow>
          (case js_inherited h k of
             Undefined \<Rightarrow> NewObject None
           | v \<Rightarrow> Inherited v))"

definition push_route ::
  "(string \<times> app) list \<times> js_heap \<Rightarrow> string \<Rightarrow> (string \<times> app) list \<times> js_heap" where
  "push_route st resc =
     (case st of
        (own, h) \<Rightarrow>
          if \<not> leading_slash resc
          then
            (case push_onto resc (read_app h own (appName resc)) h of
               (app, h') \<Rightarrow>
                 (if appName resc = ''__proto__'' then own
                  else AList.update (appName resc) app own, h'))
          else (own, h))"

definition newAppRoutes :: "string list \<Rightarrow> js_heap \<Rightarrow> (string \<times> app) list \<times> js_heap" where
  "newAppRoutes rescs h = foldl push_route ([], h) rescs"

text \<open>
  Two readings of \<open>newAppRoutes\<close> used to state what the loop builds:
  \<open>newAppRoutes[k].routes\<close> where \<open>k\<close> is an own property that holds an object
  with an array of its own (the empty list elsewhere), and that every own
  property holds such an object.
\<close>

definition own_routes :: "(string \<times> app) list \<Rightarrow> string \<Rightarrow> string list" where
  "own_routes own k = (case map_of own k of Some (NewObject (Some rs)) \<Rightarrow> rs | _ \<Rightarrow> [])"

definition fresh_objects :: "(string \<times> app) list \<Rightarrow> bool" where
  "fresh_objects own = (\<forall>(k, app) \<in> set own. \<exists>rs. app = NewObject (Some rs))"

text \<open>
  \<open>prefixes.forEach\<close> issues one \<open>findOne\<close> for each own property name; the
  callbacks run afterwards, in the order of the prefixes.
\<close>

fun lookups ::
  "'r app_db \<Rightarrow> string list \<Rightarrow> ('s, 'r) world
     \<Rightarrow> (string \<times> (error + app_doc option)) list \<times> ('s, 'r) world" where
  "lookups db [] w = ([], w)"
| "lookups db (p # ps) w =
     (case db_findOne db p w of
        (answer, w1) \<Rightarrow>
          (case lookups db ps w1 of
             (answers, w2) \<Rightarrow> ((p, answer) # answers, w2)))"

text \<open>
  The callback of \<open>findOne\<close>: nothing on an error or on \<open>null\<close>; else each route
  of \<open>newAppRoutes[prefix].routes\<close> is pushed to \<open>data.routes\<close> unless already
  there, and the document is saved. (\<open>newAppRoutes[prefix].routes\<close> is never
  undefined for an own property name: the loop has pushed to it.)
\<close>

definition push_missing :: "string list \<Rightarrow> string \<Rightarrow> string list" where
  "push_missing rs r = (if r \<notin> set rs then rs @ [r] else rs)"

definition notify ::
  "'r app_db \<Rightarrow> (string \<times> app) list \<Rightarrow> ('s, 'r) world
     \<Rightarrow> string \<times> (error + app_doc option) \<Rightarrow> ('s, 'r) world" where
  "notify db own w found =
     (case found of
        (prefix, Inl err) \<Rightarrow> w
      | (prefix, Inr None) \<Rightarrow> w
      | (prefix, Inr (Some data)) \<Rightarrow>
          db_save db prefix
            (AppDoc (Some (foldl push_missing (or_nil (routes data))
                             (or_nil (app_routes (heap w) (read_app (heap w) own prefix))))))
            w)"

text \<open>The function from \<open>var newAppRoutes = {}\<close> on, once \<open>resources\<close> is known.\<close>

definition register_routes ::
  "'r app_db \<Rightarrow> string list \<Rightarrow> ('s, 'r) world \<Rightarrow> ('s, 'r) world" where
  "register_routes db rescs w =
     (case newAppRoutes rescs (heap w) of
        (own, h) \<Rightarrow>
          (case lookups db (map fst own) (w\<lparr>heap := h\<rparr>) of
             (found, w1) \<Rightarrow> foldl (notify db own) w1 found))"

definition updateAppRoutes ::
  "'r app_db \<Rightarrow> request \<Rightarrow> ('s, 'r) world \<Rightarrow> ('s, 'r) world option" where
  "updateAppRoutes db req w =
     (case body_resources (body req) of
        None \<Rightarrow> None
      | Some rescs \<Rightarrow> Some (register_routes db rescs w))"

section \<open>The handlers\<close>

text \<open>
  Each handler is an \<open>async.auto\<close> over a chain of tasks followed by a final
  callback. A task hands \<open>done\<close> an error or nothing; the first error goes to the
  final callback, which calls \<open>next(err)\<close>, and no later task is started. The
  answer \<open>result\<close> of \<open>whatResources\<close> is a plain object, as the acl package
  builds it, and \<open>result[resource]\<close> is read with \<open>js_get\<close>: a name that
  \<open>Object.prototype\<close> has is truthy although the role has no such resource.
\<close>

subsection \<open>POST /roles\<close>

definition post_roles_validate ::
  "'s acl \<Rightarrow> request \<Rightarrow> ('s, 'r) world \<Rightarrow> error option \<times> ('s, 'r) world" where
  "post_roles_validate acl req w =
     (let roleName = roles (body req) in
      if \<not> truthy_str roleName then (Some (HttpError 400 ''Roles required!''), w)
      else if \<not> truthy_arr (allows (body req)) \<and>
              (\<not> truthy_arr (resources (body req)) \<or> \<not> truthy_arr (permissions (body req)))
      then (Some (HttpError 400 ''Allows, or Resources and Permissions required!''), w)
      else
        (case acl_listRoles acl w of
           (Inl err, w') \<Rightarrow> (Some err, w')
         | (Inr rs, w') \<Rightarrow>
             if or_empty roleName \<in> set rs
             then (Some (HttpError 400 (''The role '' @ or_empty roleName @ '' already exists.'')), w')
             else (None, w')))"

text \<open>
  The task \<open>addRole\<close> issues \<open>acl.allow\<close>, then runs \<open>updateAppRoutes(req)\<close>
  before the callback of \<open>allow\<close> can arrive.
\<close>

definition post_roles_addRole ::
  "'s acl \<Rightarrow> request \<Rightarrow> ('s, 'r) world \<Rightarrow> error option \<times> ('s, 'r) world" where
  "post_roles_addRole acl req w =
     (if truthy_arr (allows (body req))
      then acl_allow acl (AllowObjs [body req]) w
      else acl_allow acl
             (AllowTriple (or_empty (roles (body req)))
                (Many (or_nil (resources (body req)))) (or_nil (permissions (body req)))) w)"

definition post_roles ::
  "'s acl \<Rightarrow> 'r app_db \<Rightarrow> request \<Rightarrow> ('s, 'r) world \<Rightarrow> reply \<times> ('s, 'r) world" where
  "post_roles acl db req w =
     (case post_roles_validate acl req w of
        (Some err, w1) \<Rightarrow> (Next err, w1)
      | (None, w1) \<Rightarrow>
          (case post_roles_addRole acl req w1 of
             (err, w2) \<Rightarrow>
               (case updateAppRoutes db req w2 of
                  None \<Rightarrow> (Uncaught, w2)
                | Some w3 \<Rightarrow>
                    (case err of
                       Some e \<Rightarrow> (Next e, w3)
                     | None \<Rightarrow>
                         (case acl_listRoles acl w3 of
                            (Inl e, w4) \<Rightarrow> (Next e, w4)
                          | (Inr rs, w4) \<Rightarrow> (Json (Roles rs), w4))))))"

subsection \<open>GET /roles/:roleName\<close>

text \<open>
  The task \<open>get\<close> is kept as the list of the calls it makes to its callback
  \<open>done\<close>, each an error (or null) and a result (or undefined): the branch
  \<open>if (err) { done(err); }\<close> has no \<open>return\<close>, and \<open>done(null, result)\<close>
  follows it on every path. The final callback acts on the first call.
\<close>

type_synonym done_call = "error option \<times> (string \<times> string list) list option"

definition get_role_get ::
  "'s acl \<Rightarrow> string \<Rightarrow> ('s, 'r) world \<Rightarrow> done_call list \<times> ('s, 'r) world" where
  "get_role_get acl roleName w =
     (case acl_whatResources acl roleName w of
        (r, w') \<Rightarrow>
          ((case r of Inl err \<Rightarrow> [(Some err, None)] | Inr result \<Rightarrow> []) @
           [(None, case r of Inl err \<Rightarrow> None | Inr result \<Rightarrow> Some result)], w'))"

definition get_role ::
  "'s acl \<Rightarrow> request \<Rightarrow> ('s, 'r) world \<Rightarrow> reply \<times> ('s, 'r) world" where
  "get_role acl req w =
     (let roleName = or_empty (params_roleName req) in
      case acl_existsRole acl roleName w of
        (Some err, w1) \<Rightarrow> (Next err, w1)
      | (None, w1) \<Rightarrow>
          (case get_role_get acl roleName w1 of
             ([], w2) \<Rightarrow> (Pending, w2)
           | ((Some err, result) # rest, w2) \<Rightarrow> (Next err, w2)
           | ((None, Some result) # rest, w2) \<Rightarrow> (Json (Resources result), w2)
           | ((None, None) # rest, w2) \<Rightarrow> (Json (ReadValue Undefined), w2)))"

subsection \<open>DELETE /roles/:roleName\<close>

definition delete_role_validate ::
  "'s acl \<Rightarrow> string \<Rightarrow> ('s, 'r) world \<Rightarrow> error option \<times> ('s, 'r) world" where
  "delete_role_validate acl roleName w =
     (if roleName = ''admin''
      then (Some (HttpError 403 (''The role '' @ roleName @ '' is indestructible'')), w)
      else acl_existsRole acl roleName w)"

definition delete_role ::
  "'s acl \<Rightarrow> request \<Rightarrow> ('s, 'r) world \<Rightarrow> reply \<times> ('s, 'r) world" where
  "delete_role acl req w =
     (let roleName = or_empty (params_roleName req) in
      case delete_role_validate acl roleName w of
        (Some err, w1) \<Rightarrow> (Next err, w1)
      | (None, w1) \<Rightarrow>
          (case acl_removeRole acl roleName w1 of
             (Some err, w2) \<Rightarrow> (Next err, w2)
           | (None, w2) \<Rightarrow>
               (case acl_listRoles acl w2 of
                  (Inl err, w3) \<Rightarrow> (Next err, w3)
                | (Inr rs, w3) \<Rightarrow> (Json (Roles rs), w3))))"

subsection \<open>POST /roles/:roleName/resources\<close>

definition post_resources_validate :: "request \<Rightarrow> error option" where
  "post_resources_validate req =
     (if \<not> truthy_arr (allows (body req)) \<and>
         (\<not> truthy_arr (resources (body req)) \<or> \<not> truthy_arr (permissions (body req)))
      then Some (HttpError 400 ''Allows, or Resources and Permissions required!'')
      else None)"

text \<open>
  In the \<open>allows\<close> shape the task writes the path's role name into the body
  (\<open>role = req.body; role.roles = roleName\<close>) and passes the body on; the request
  that \<open>updateAppRoutes\<close> then reads is the one so changed.
\<close>

definition post_resources_addResources ::
  "'s acl \<Rightarrow> string \<Rightarrow> request \<Rightarrow> ('s, 'r) world
     \<Rightarrow> (error option \<times> request) \<times> ('s, 'r) world" where
  "post_resources_addResources acl roleName req w =
     (if truthy_arr (allows (body req))
      then
        (let role = (body req)\<lparr>roles := Some roleName\<rparr> in
         case acl_allow acl (AllowObjs [role]) w of
           (err, w') \<Rightarrow> ((err, req\<lparr>body := role\<rparr>), w'))
      else
        (case acl_allow acl
                (AllowTriple roleName (Many (or_nil (resources (body req))))
                   (or_nil (permissions (body req)))) w of
           (err, w') \<Rightarrow> ((err, req), w')))"

definition post_resources ::
  "'s acl \<Rightarrow> 'r app_db \<Rightarrow> request \<Rightarrow> ('s, 'r) world \<Rightarrow> reply \<times> ('s, 'r) world" where
  "post_resources acl db req w =
     (let roleName = or_empty (params_roleName req) in
      case post_resources_validate req of
        Some err \<Rightarrow> (Next err, w)
      | None \<Rightarrow>
          (case acl_existsRole acl roleName w of
             (Some err, w1) \<Rightarrow> (Next err, w1)
           | (None, w1) \<Rightarrow>
               (case post_resources_addResources acl roleName req w1 of
                  ((err, req'), w2) \<Rightarrow>
                    (case updateAppRoutes db req' w2 of
                       None \<Rightarrow> (Uncaught, w2)
                     | Some w3 \<Rightarrow>
                         (case err of
                            Some e \<Rightarrow> (Next e, w3)
                          | None \<Rightarrow>
                              (case acl_whatResources acl roleName w3 of
                                 (Inl e, w4) \<Rightarrow> (Next e, w4)
                               | (Inr result, w4) \<Rightarrow> (Json (Resources result), w4)))))))"

subsection \<open>POST /roles/:roleName/resources/*/permissions\<close>

definition post_permissions_validate ::
  "'s acl \<Rightarrow> string \<Rightarrow> string \<Rightarrow> request \<Rightarrow> ('s, 'r) world
     \<Rightarrow> error option \<times> ('s, 'r) world" where
  "post_permissions_validate acl roleName resource req w =
     (if \<not> truthy_arr (permissions (body req))
      then (Some (HttpError 400 ''Permissions required!''), w)
      else
        (case acl_whatResources acl roleName w of
           (Inl err, w') \<Rightarrow> (Some err, w')
         | (Inr result, w') \<Rightarrow>
             (case js_get (heap w') result resource of
                Undefined \<Rightarrow>
                  (Some (HttpError 400
                     (''The resource '' @ resource @ '' in '' @ roleName @ '' doesn't exist.'')), w')
              | v \<Rightarrow> (None, w'))))"

definition post_permissions ::
  "'s acl \<Rightarrow> request \<Rightarrow> ('s, 'r) world \<Rightarrow> reply \<times> ('s, 'r) world" where
  "post_permissions acl req w =
     (let roleName = or_empty (params_roleName req);
          resource = or_empty (params_0 req) in
      case acl_existsRole acl roleName w of
        (Some err, w1) \<Rightarrow> (Next err, w1)
      | (None, w1) \<Rightarrow>
          (case post_permissions_validate acl roleName resource req w1 of
             (Some err, w2) \<Rightarrow> (Next err, w2)
           | (None, w2) \<Rightarrow>
               (case acl_allow acl
                       (AllowTriple roleName (One resource) (or_nil (permissions (body req)))) w2 of
                  (Some err, w3) \<Rightarrow> (Next err, w3)
                | (None, w3) \<Rightarrow>
                    (case acl_whatResources acl roleName w3 of
                       (Inl err, w4) \<Rightarrow> (Next err, w4)
                     | (Inr result, w4) \<Rightarrow>
                         (Json (ReadValue (js_get (heap w4) result resource)), w4)))))"

subsection \<open>DELETE /roles/:roleName/resources/*/permissions/:permissionName\<close>

text \<open>
  The task \<open>validate\<close>: it passes, it hands \<open>done\<close> an error, or it throws.
  \<open>result[resource].length < 2\<close> is false when the length is undefined, and
  \<open>result[resource].indexOf\<close> is not a function on anything but an array.
\<close>

datatype check = Passed | Failed error | Thrown

definition delete_permission_validate ::
  "'s acl \<Rightarrow> string \<Rightarrow> string \<Rightarrow> string \<Rightarrow> ('s, 'r) world
     \<Rightarrow> check \<times> ('s, 'r) world" where
  "delete_permission_validate acl roleName resource permission w =
     (case acl_whatResources acl roleName w of
        (Inl err, w') \<Rightarrow> (Failed err, w')
      | (Inr result, w') \<Rightarrow>
          (case js_get (heap w') result resource of
             Undefined \<Rightarrow>
               (Failed (HttpError 400
                  (''The resource '' @ resource @ '' in '' @ roleName @ '' doesn't exist.'')), w')
           | v \<Rightarrow>
               if (case js_length v of None \<Rightarrow> False | Some n \<Rightarrow> n < 2)
               then (Failed (HttpError 400
                       (''The permission '' @ permission @ '' can't be remove because is the last'')), w')
               else
                 (case v of
                    Arr ps \<Rightarrow>
                      if permission \<notin> set ps
                      then (Failed (HttpError 400
                              (''The permission '' @ permission @ '' in the resource '' @ resource @
                               '' in '' @ roleName @ '' doesn't exist.'')), w')
                      else (Passed, w')
                  | other \<Rightarrow> (Thrown, w'))))"

definition delete_permission ::
  "'s acl \<Rightarrow> request \<Rightarrow> ('s, 'r) world \<Rightarrow> reply \<times> ('s, 'r) world" where
  "delete_permission acl req w =
     (let roleName = or_empty (params_roleName req);
          resource = or_empty (params_0 req);
          permission = or_empty (params_permissionName req) in
      case acl_existsRole acl roleName w of
        (Some err, w1) \<Rightarrow> (Next err, w1)
      | (None, w1) \<Rightarrow>
          (case delete_permission_validate acl roleName resource permission w1 of
             (Failed err, w2) \<Rightarrow> (Next err, w2)
           | (Thrown, w2) \<Rightarrow> (Uncaught, w2)
           | (Passed, w2) \<Rightarrow>
               (case acl_removeAllow acl roleName resource (Str permission) w2 of
                  (Some err, w3) \<Rightarrow> (Next err, w3)
                | (None, w3) \<Rightarrow>
                    (case acl_whatResources acl roleName w3 of
                       (Inl err, w4) \<Rightarrow> (Next err, w4)
                     | (Inr result, w4) \<Rightarrow>
                         (Json (ReadValue (case js_get (heap w4) result resource of
                                            Undefined \<Rightarrow> Arr []
                                          | v \<Rightarrow> v)), w4)))))"

subsection \<open>DELETE /roles/:roleName/resources/*\<close>

text \<open>
  The task \<open>validate\<close> answers with what it read
  (\<open>done(null, result[resource])\<close>), which the task \<open>deleteResources\<close> passes to
  \<open>removeAllow\<close> as \<open>results.validate\<close>: the resource's permission array when
  the role has the resource. An error of \<open>whatResources\<close> goes straight to
  \<open>next\<close>.
\<close>

definition delete_resource_validate ::
  "'s acl \<Rightarrow> string \<Rightarrow> string \<Rightarrow> ('s, 'r) world
     \<Rightarrow> (error + jsval) \<times> ('s, 'r) world" where
  "delete_resource_validate acl roleName resource w =
     (case acl_existsRole acl roleName w of
        (Some err, w1) \<Rightarrow> (Inl err, w1)
      | (None, w1) \<Rightarrow>
          (case acl_whatResources acl roleName w1 of
             (Inl err, w2) \<Rightarrow> (Inl err, w2)
           | (Inr result, w2) \<Rightarrow>
               (case js_get (heap w2) result resource of
                  Undefined \<Rightarrow>
                    (Inl (HttpError 400
                       (''The resource '' @ resource @ '' in '' @ roleName @ '' doesn't exist.'')), w2)
                | v \<Rightarrow> (Inr v, w2))))"

definition delete_resource ::
  "'s acl \<Rightarrow> request \<Rightarrow> ('s, 'r) world \<Rightarrow> reply \<times> ('s, 'r) world" where
  "delete_resource acl req w =
     (let roleName = or_empty (params_roleName req);
          resource = or_empty (params_0 req) in
      case delete_resource_validate acl roleName resource w of
        (Inl err, w1) \<Rightarrow> (Next err, w1)
      | (Inr validate, w1) \<Rightarrow>
          (case acl_removeAllow acl roleName resource (Val validate) w1 of
             (Some err, w2) \<Rightarrow> (Next err, w2)
           | (None, w2) \<Rightarrow>
               (case acl_whatResources acl roleName w2 of
                  (Inl err, w3) \<Rightarrow> (Next err, w3)
                | (Inr result, w3) \<Rightarrow> (Json (Resources result), w3))))"

subsection \<open>The mutating endpoints\<close>

datatype endpoint =
    PostRoles
  | DeleteRole
  | PostResources
  | PostPermissions
  | DeletePermission
  | DeleteResource

fun router ::
  "endpoint \<Rightarrow> 's acl \<Rightarrow> 'r app_db \<Rightarrow> request \<Rightarrow> ('s, 'r) world \<Rightarrow> reply \<times> ('s, 'r) world" where
  "router PostRoles acl db req w = post_roles acl db req w"
| "router DeleteRole acl db req w = delete_role acl req w"
| "router PostResources acl db req w = post_resources acl db req w"
| "router PostPermissions acl db req w = post_permissions acl req w"
| "router DeletePermission acl db req w = delete_permission acl req w"
| "router DeleteResource acl db req w = delete_resource acl req w"

section \<open>An access control store\<close>

text \<open>
  Modelled from the spec: the AccessControlStore behind \<open>req.app.acl\<close>, which is
  not among the source files. A store holds its roles in order, each with its
  resources, each resource with its ordered permissions. The operations follow
  section 4.1 of the spec: \<open>listRoles\<close> gives the role identifiers; \<open>existsRole\<close>
  and \<open>whatResources\<close> fail with a NotFoundError on an absent role; \<open>allow\<close>
  unions the given permissions into the given resources under the role, creating
  the role and the resources when absent, in both call shapes alike; \<open>removeRole\<close>
  refuses the role admin and fails on an absent role; \<open>removeAllow\<close> removes the
  given permission or permissions from the resource, and nothing else. The store
  does not defend the rule that a resource has a permission: the spec leaves that
  to the caller.
\<close>

type_synonym acl_store = "(string \<times> (string \<times> string list) list) list"

definition spec_listRoles :: "acl_store \<Rightarrow> error + string list" where
  "spec_listRoles s = Inr (map fst s)"

definition spec_existsRole :: "string \<Rightarrow> acl_store \<Rightarrow> error option" where
  "spec_existsRole role s =
     (case map_of s role of None \<Rightarrow> Some (NotFoundError role) | Some rs \<Rightarrow> None)"

definition spec_whatResources ::
  "string \<Rightarrow> acl_store \<Rightarrow> error + (string \<times> string list) list" where
  "spec_whatResources role s =
     (case map_of s role of None \<Rightarrow> Inl (NotFoundError role) | Some rs \<Rightarrow> Inr rs)"

definition grant ::
  "string list \<Rightarrow> (string \<times> string list) list \<Rightarrow> string \<Rightarrow> (string \<times> string list) list" where
  "grant perms rs res =
     AList.update res
       (foldl push_missing (case map_of rs res of None \<Rightarrow> [] | Some ps \<Rightarrow> ps) perms) rs"

definition spec_allow_triple ::
  "string \<Rightarrow> string list \<Rightarrow> string list \<Rightarrow> acl_store \<Rightarrow> acl_store" where
  "spec_allow_triple role rescs perms s =
     AList.update role
       (foldl (grant perms) (case map_of s role of None \<Rightarrow> [] | Some rs \<Rightarrow> rs) rescs) s"

definition spec_allow_obj :: "acl_store \<Rightarrow> body \<Rightarrow> acl_store" where
  "spec_allow_obj s b =
     foldl (\<lambda>s' e. spec_allow_triple (or_empty (roles b)) (strs_list (entry_resources e))
                     (entry_permissions e) s')
       s (or_nil (allows b))"

fun spec_allow :: "allow_args \<Rightarrow> acl_store \<Rightarrow> error option \<times> acl_store" where
  "spec_allow (AllowObjs objs) s = (None, foldl spec_allow_obj s objs)"
| "spec_allow (AllowTriple role rescs perms) s =
     (None, spec_allow_triple role (strs_list rescs) perms s)"

definition spec_removeRole :: "string \<Rightarrow> acl_store \<Rightarrow> error option \<times> acl_store" where
  "spec_removeRole role s =
     (if role = ''admin'' then (Some (ForbiddenError role), s)
      else case map_of s role of
             None \<Rightarrow> (Some (NotFoundError role), s)
           | Some rs \<Rightarrow> (None, AList.delete role s))"

fun removed :: "removal \<Rightarrow> string list" where
  "removed (Str p) = [p]"
| "removed (Val (Arr ps)) = ps"
| "removed (Val v) = []"

definition spec_removeAllow ::
  "string \<Rightarrow> string \<Rightarrow> removal \<Rightarrow> acl_store \<Rightarrow> error option \<times> acl_store" where
  "spec_removeAllow role res perms s =
     (case map_of s role of
        None \<Rightarrow> (Some (NotFoundError role), s)
      | Some rs \<Rightarrow>
          (case map_of rs res of
             None \<Rightarrow> (None, s)
           | Some ps \<Rightarrow>
               (None, AList.update role
                        (AList.update res (filter (\<lambda>p. p \<notin> set (removed perms)) ps) rs) s)))"

definition spec_acl :: "acl_store acl" where
  "spec_acl =
     \<lparr>listRoles = spec_listRoles, existsRole = spec_existsRole, allow = spec_allow,
      whatResources = spec_whatResources, removeRole = spec_removeRole,
      removeAllow = spec_removeAllow\<rparr>"

text \<open>
  An application collection held in memory, one document for each prefix, for runs
  of the handlers on concrete requests.
\<close>

definition mem_apps :: "(string \<times> app_doc) list app_db" where
  "mem_apps = \<lparr>findOne = (\<lambda>p r. Inr (map_of r p)), save = (\<lambda>p d r. AList.update p d r)\<rparr>"

section \<open>Concrete stores and requests\<close>

text \<open>A heap on which nothing has set a \<open>routes\<close> property.\<close>

definition clean_heap :: js_heap where
  "clean_heap = \<lparr>proto_routes = None, builtin_routes = []\<rparr>"

definition no_body :: body where
  "no_body = \<lparr>roles = None, allows = None, resources = None, permissions = None\<rparr>"

definition editor_store :: acl_store where
  "editor_store = [(''admin'', []), (''editor'', [(''docs'', [''read'', ''write''])])]"

definition editor_world :: "(acl_store, (string \<times> app_doc) list) world" where
  "editor_world =
     \<lparr>store = editor_store, apps = [(''app'', AppDoc None)], heap = clean_heap, calls = []\<rparr>"

definition delete_admin_req :: request where
  "delete_admin_req =
     \<lparr>params_roleName = Some ''admin'', params_0 = None, params_permissionName = None,
      body = no_body\<rparr>"

definition get_editor_req :: request where
  "get_editor_req =
     \<lparr>params_roleName = Some ''editor'', params_0 = None, params_permissionName = None,
      body = no_body\<rparr>"

text \<open>A store whose \<open>whatResources\<close> fails although the role exists.\<close>

definition failing_reads_acl :: "acl_store acl" where
  "failing_reads_acl = spec_acl\<lparr>whatResources := (\<lambda>role s. Inl (StoreError ''unavailable''))\<rparr>"

text \<open>An application collection whose every lookup fails and whose saves are lost.\<close>

definition broken_apps :: "unit app_db" where
  "broken_apps = \<lparr>findOne = (\<lambda>p r. Inl (StoreError ''registry down'')), save = (\<lambda>p d r. r)\<rparr>"

definition broken_world :: "(acl_store, unit) world" where
  "broken_world = \<lparr>store = editor_store, apps = (), heap = clean_heap, calls = []\<rparr>"

text \<open>
  POST /roles/editor/resources with a body that names the role admin and grants read on
  app/wiki.
\<close>

definition grant_wiki_req :: request where
  "grant_wiki_req =
     \<lparr>params_roleName = Some ''editor'', params_0 = None, params_permissionName = None,
      body = \<lparr>roles = Some ''admin'', allows = Some [AllowEntry (One ''app/wiki'') [''read'']],
              resources = None, permissions = None\<rparr>\<rparr>"

text \<open>
  A grant on /api/x, app/wiki and app/docs/1 for the role editor; and the same
  resources with a leading slash only.
\<close>

definition slashed_req :: request where
  "slashed_req =
     \<lparr>params_roleName = Some ''editor'', params_0 = None, params_permissionName = None,
      body = \<lparr>roles = None,
              allows = Some [AllowEntry (Many [''/api/x'', ''app/wiki'']) [''read''],
                             AllowEntry (One ''app/docs/1'') [''read'']],
              resources = None, permissions = None\<rparr>\<rparr>"

definition slashed_only_req :: request where
  "slashed_only_req =
     \<lparr>params_roleName = Some ''editor'', params_0 = None, params_permissionName = None,
      body = \<lparr>roles = None, allows = None, resources = Some [''/api/x'', ''/app/wiki''],
              permissions = Some [''read'']\<rparr>\<rparr>"

text \<open>
  DELETE of a permission of docs under editor; a store where docs has the single
  permission read; requests on a role that does not exist.
\<close>

definition delete_write_req :: request where
  "delete_write_req =
     \<lparr>params_roleName = Some ''editor'', params_0 = Some ''docs'',
      params_permissionName = Some ''write'', body = no_body\<rparr>"

definition delete_read_req :: request where
  "delete_read_req =
     \<lparr>params_roleName = Some ''editor'', params_0 = Some ''docs'',
      params_permissionName = Some ''read'', body = no_body\<rparr>"

definition delete_publish_req :: request where
  "delete_publish_req =
     \<lparr>params_roleName = Some ''editor'', params_0 = Some ''docs'',
      params_permissionName = Some ''publish'', body = no_body\<rparr>"

definition reader_world :: "(acl_store, (string \<times> app_doc) list) world" where
  "reader_world =
     \<lparr>store = [(''editor'', [(''docs'', [''read''])])], apps = [], heap = clean_heap,
      calls = []\<rparr>"

definition ghost_req :: request where
  "ghost_req =
     \<lparr>params_roleName = Some ''ghost'', params_0 = Some ''docs'',
      params_permissionName = Some ''publish'', body = no_body\<rparr>"


definition grant_nothing_req :: request where
  "grant_nothing_req =
     \<lparr>params_roleName = None, params_0 = None, params_permissionName = None,
      body = \<lparr>roles = Some ''guest'', allows = None, resources = Some [''docs''],
              permissions = Some []\<rparr>\<rparr>"

text \<open>
  A grant for the role editor on the resources __proto__/x and app/y.
\<close>

definition proto_req :: request where
  "proto_req =
     \<lparr>params_roleName = Some ''editor'', params_0 = None, params_permissionName = None,
      body = \<lparr>roles = None, allows = None, resources = Some [''__proto__/x'', ''app/y''],
              permissions = Some [''read'']\<rparr>\<rparr>"

section \<open>Basic facts\<close>

lemma log_simps [simp]:
  "store (log c w) = store w" "apps (log c w) = apps w" "heap (log c w) = heap w"
  "calls (log c w) = calls w @ [c]"
  by (simp_all add: log_def)

lemmas acl_call_defs =
  acl_listRoles_def acl_existsRole_def acl_allow_def acl_whatResources_def
  acl_removeRole_def acl_removeAllow_def

lemma js_get_own [simp]: "map_of obj k = Some ps \<Longrightarrow> js_get h obj k = Arr ps"
  by (simp add: js_get_def)

lemma notify_store [simp]: "store (notify db own w found) = store w"
  by (simp add: notify_def db_save_def split: prod.splits sum.splits option.splits)

lemma foldl_notify_store [simp]: "store (foldl (notify db own) w found) = store w"
  by (induction found arbitrary: w) simp_all

lemma lookups_store [simp]: "store (snd (lookups db ps w)) = store w"
  by (induction ps arbitrary: w) (simp_all add: db_findOne_def case_prod_beta)

lemma register_routes_store [simp]: "store (register_routes db rescs w) = store w"
proof -
  obtain own h where n: "newAppRoutes rescs (heap w) = (own, h)"
    by (cases "newAppRoutes rescs (heap w)")
  have "store (snd (lookups db (map fst own) (w\<lparr>heap := h\<rparr>))) = store w"
    by simp
  with n show ?thesis by (simp add: register_routes_def case_prod_beta)
qed

lemma notify_calls_mono: "c \<in> set (calls w) \<Longrightarrow> c \<in> set (calls (notify db own w found))"
  by (simp add: notify_def db_save_def split: prod.splits sum.splits option.splits)

lemma foldl_notify_calls_mono:
  "c \<in> set (calls w) \<Longrightarrow> c \<in> set (calls (foldl (notify db own) w found))"
  by (induction found arbitrary: w) (simp_all add: notify_calls_mono)

lemma lookups_calls_mono: "c \<in> set (calls w) \<Longrightarrow> c \<in> set (calls (snd (lookups db ps w)))"
  by (induction ps arbitrary: w) (simp_all add: db_findOne_def case_prod_beta)

lemma register_routes_calls_mono:
  assumes "c \<in> set (calls w)"
  shows "c \<in> set (calls (register_routes db rescs w))"
proof -
  obtain own h where n: "newAppRoutes rescs (heap w) = (own, h)"
    by (cases "newAppRoutes rescs (heap w)")
  have "c \<in> set (calls (w\<lparr>heap := h\<rparr>))" using assms by simp
  then have "c \<in> set (calls (snd (lookups db (map fst own) (w\<lparr>heap := h\<rparr>))))"
    by (rule lookups_calls_mono)
  then show ?thesis
    using n by (simp add: register_routes_def case_prod_beta foldl_notify_calls_mono)
qed

lemma updateAppRoutes_Some:
  "body_resources (body req) = Some rescs \<Longrightarrow>
   \<exists>w'. updateAppRoutes db req w = Some w' \<and> store w' = store w"
  by (simp add: updateAppRoutes_def)

lemma updateAppRoutes_None:
  "body_resources (body req) = None \<Longrightarrow> updateAppRoutes db req w = None"
  by (simp add: updateAppRoutes_def)

lemma body_resources_roles [simp]: "body_resources (b\<lparr>roles := r\<rparr>) = body_resources b"
  by (simp add: body_resources_def)

lemma updateAppRoutes_roles [simp]:
  "updateAppRoutes db (req\<lparr>body := (body req)\<lparr>roles := r\<rparr>\<rparr>) w = updateAppRoutes db req w"
  by (simp add: updateAppRoutes_def)

text \<open>
  The TypeError of \<open>updateAppRoutes\<close> is not reached: a body that passes the
  validation task has \<open>allows\<close> or \<open>resources\<close>.
\<close>

lemma body_resources_valid:
  "truthy_arr (allows b) \<or> truthy_arr (resources b) \<Longrightarrow> body_resources b \<noteq> None"
  by (auto simp: body_resources_def truthy_arr_def split: option.splits)

lemma updateAppRoutes_None_iff:
  "updateAppRoutes db req w = None \<longleftrightarrow> body_resources (body req) = None"
  by (simp add: updateAppRoutes_def split: option.splits)

lemma post_roles_never_uncaught: "fst (post_roles acl db req w) \<noteq> Uncaught"
proof -
  obtain e1 w1 where v: "post_roles_validate acl req w = (e1, w1)"
    by (cases "post_roles_validate acl req w")
  show ?thesis
  proof (cases e1)
    case (Some err)
    with v show ?thesis by (simp add: post_roles_def)
  next
    case None
    with v have "truthy_arr (allows (body req)) \<or> truthy_arr (resources (body req))"
      by (auto simp: post_roles_validate_def Let_def split: if_splits)
    then have "body_resources (body req) \<noteq> None"
      by (rule body_resources_valid)
    then show ?thesis
      using v None
      by (auto simp: post_roles_def acl_listRoles_def updateAppRoutes_None_iff
          split: prod.splits option.splits sum.splits)
  qed
qed

lemma post_resources_never_uncaught: "fst (post_resources acl db req w) \<noteq> Uncaught"
proof (cases "post_resources_validate req")
  case (Some err)
  then show ?thesis by (simp add: post_resources_def)
next
  case None
  let ?rn = "or_empty (params_roleName req)"
  from None have t: "truthy_arr (allows (body req)) \<or> truthy_arr (resources (body req))"
    by (auto simp: post_resources_validate_def split: if_splits)
  obtain e1 w1 where x: "acl_existsRole acl ?rn w = (e1, w1)"
    by (cases "acl_existsRole acl ?rn w")
  obtain e2 q2 w2 where a: "post_resources_addResources acl ?rn req w1 = ((e2, q2), w2)"
    by (cases "post_resources_addResources acl ?rn req w1") auto
  then have "body_resources (body q2) \<noteq> None"
    using t body_resources_valid[of "body req"]
    by (auto simp: post_resources_addResources_def Let_def split: prod.splits if_splits)
  then show ?thesis
    using None x a
    by (auto simp: post_resources_def Let_def acl_whatResources_def updateAppRoutes_None_iff
        split: prod.splits option.splits sum.splits)
qed

section \<open>The role admin is indestructible\<close>

text \<open>
  Claim C3. A DELETE request for the role named admin fails with status 403 whatever
  else the request holds and whatever the store is: the handler answers
  \<open>next(err)\<close> with the 403 error and leaves the world as it was, so no role is
  removed and no backend operation, \<open>existsRole\<close> included, is called.
\<close>

theorem delete_admin_forbidden:
  "params_roleName req = Some ''admin'' \<Longrightarrow>
   delete_role acl req w = (Next (HttpError 403 ''The role admin is indestructible''), w) \<and>
   status (HttpError 403 ''The role admin is indestructible'') = Some 403"
  by (simp add: delete_role_def delete_role_validate_def or_empty_def)

theorem delete_admin_forbidden_witness:
  "params_roleName delete_admin_req = Some ''admin'' \<and>
   delete_role spec_acl delete_admin_req editor_world
     = (Next (HttpError 403 ''The role admin is indestructible''), editor_world) \<and>
   listRoles spec_acl (store editor_world) = Inr [''admin'', ''editor'']"
proof -
  have h: "params_roleName delete_admin_req = Some ''admin''"
    by (simp add: delete_admin_req_def)
  have "listRoles spec_acl (store editor_world) = Inr [''admin'', ''editor'']"
    by (simp add: spec_acl_def spec_listRoles_def editor_world_def editor_store_def)
  with h delete_admin_forbidden[OF h, of spec_acl editor_world] show ?thesis by simp
qed

section \<open>The task get of GET /roles/:roleName\<close>

text \<open>
  Claim C9. In GET /roles/:roleName, when \<open>existsRole\<close> has succeeded and
  \<open>whatResources\<close> reports an error, the task \<open>get\<close> calls its callback twice:
  first with the error, then with null and the undefined result, because the error
  branch does not return. The final callback answers \<open>next\<close> with the error.
\<close>

theorem get_role_done_twice:
  assumes "existsRole acl (or_empty (params_roleName req)) (store w) = None"
    and "whatResources acl (or_empty (params_roleName req)) (store w) = Inl e"
  shows "fst (get_role_get acl (or_empty (params_roleName req))
                (log (ExistsRole (or_empty (params_roleName req))) w))
           = [(Some e, None), (None, None)] \<and>
         fst (get_role acl req w) = Next e"
  using assms
  by (simp add: get_role_def get_role_get_def acl_existsRole_def acl_whatResources_def Let_def)

theorem get_role_done_twice_witness:
  "existsRole failing_reads_acl ''editor'' (store editor_world) = None \<and>
   whatResources failing_reads_acl ''editor'' (store editor_world)
     = Inl (StoreError ''unavailable'') \<and>
   fst (get_role_get failing_reads_acl ''editor'' (log (ExistsRole ''editor'') editor_world))
     = [(Some (StoreError ''unavailable''), None), (None, None)] \<and>
   fst (get_role failing_reads_acl get_editor_req editor_world) = Next (StoreError ''unavailable'')"
proof -
  have n: "or_empty (params_roleName get_editor_req) = ''editor''"
    by (simp add: get_editor_req_def or_empty_def)
  have a: "existsRole failing_reads_acl (or_empty (params_roleName get_editor_req))
             (store editor_world) = None"
    by (simp add: n failing_reads_acl_def spec_acl_def spec_existsRole_def editor_world_def
        editor_store_def)
  have b: "whatResources failing_reads_acl (or_empty (params_roleName get_editor_req))
             (store editor_world) = Inl (StoreError ''unavailable'')"
    by (simp add: failing_reads_acl_def)
  from get_role_done_twice[OF a b] a b show ?thesis by (simp add: n)
qed

section \<open>The role of a grant comes from the path\<close>

text \<open>
  Claim C8. For POST /roles/:roleName/resources with an \<open>allows\<close> body, the
  \<open>roles\<close> field of the body is overwritten with the role name of the path before
  \<open>allow\<close> is called: two requests that differ only in the body's \<open>roles\<close> field
  give the same reply and the same world, and once the role exists the store that
  results is the one \<open>allow\<close> produces for the body with \<open>roles\<close> set to the
  path's role name.
\<close>

theorem post_resources_role_from_path:
  assumes "allows (body req) = Some es"
  shows "post_resources acl db (req\<lparr>body := (body req)\<lparr>roles := r1\<rparr>\<rparr>) w
           = post_resources acl db (req\<lparr>body := (body req)\<lparr>roles := r2\<rparr>\<rparr>) w \<and>
         (existsRole acl (or_empty (params_roleName req)) (store w) = None \<longrightarrow>
            store (snd (post_resources acl db req w))
              = snd (allow acl
                       (AllowObjs [(body req)\<lparr>roles := Some (or_empty (params_roleName req))\<rparr>])
                       (store w)) \<and>
            Allow (AllowObjs [(body req)\<lparr>roles := Some (or_empty (params_roleName req))\<rparr>])
              \<in> set (calls (snd (post_resources acl db req w))))"
proof -
  have same: "post_resources acl db (req\<lparr>body := (body req)\<lparr>roles := r1\<rparr>\<rparr>) w
           = post_resources acl db (req\<lparr>body := (body req)\<lparr>roles := r2\<rparr>\<rparr>) w"
    by (simp add: post_resources_def post_resources_validate_def post_resources_addResources_def
        Let_def split: prod.splits option.splits)
  let ?rn = "or_empty (params_roleName req)"
  let ?role = "(body req)\<lparr>roles := Some ?rn\<rparr>"
  have grant: "store (snd (post_resources acl db req w)) = snd (allow acl (AllowObjs [?role]) (store w)) \<and>
      Allow (AllowObjs [?role]) \<in> set (calls (snd (post_resources acl db req w)))"
    if ex: "existsRole acl ?rn (store w) = None"
  proof -
    obtain err s' where al: "allow acl (AllowObjs [?role]) (store w) = (err, s')"
      by (cases "allow acl (AllowObjs [?role]) (store w)")
    have br: "body_resources ?role = Some (foldl (\<lambda>acc obj. acc @ strs_list (entry_resources obj)) [] es)"
      using assms by (simp add: body_resources_def truthy_arr_def or_nil_def)
    show ?thesis
      using assms ex al br
      by (auto simp: post_resources_def post_resources_validate_def
          post_resources_addResources_def acl_existsRole_def acl_allow_def acl_whatResources_def
          updateAppRoutes_def truthy_arr_def Let_def register_routes_calls_mono
          split: option.splits sum.splits)
  qed
  from same grant show ?thesis by blast
qed

theorem post_resources_role_from_path_witness:
  "allows (body grant_wiki_req) = Some [AllowEntry (One ''app/wiki'') [''read'']] \<and>
   existsRole spec_acl ''editor'' (store editor_world) = None \<and>
   post_resources spec_acl mem_apps
       (grant_wiki_req\<lparr>body := (body grant_wiki_req)\<lparr>roles := Some ''admin''\<rparr>\<rparr>) editor_world
     = post_resources spec_acl mem_apps
         (grant_wiki_req\<lparr>body := (body grant_wiki_req)\<lparr>roles := None\<rparr>\<rparr>) editor_world \<and>
   store (snd (post_resources spec_acl mem_apps grant_wiki_req editor_world))
     = [(''admin'', []),
        (''editor'', [(''docs'', [''read'', ''write'']), (''app/wiki'', [''read''])])]"
proof -
  have h: "allows (body grant_wiki_req) = Some [AllowEntry (One ''app/wiki'') [''read'']]"
    by (simp add: grant_wiki_req_def)
  have e: "existsRole spec_acl ''editor'' (store editor_world) = None"
    by code_simp
  have s: "store (snd (post_resources spec_acl mem_apps grant_wiki_req editor_world))
     = [(''admin'', []),
        (''editor'', [(''docs'', [''read'', ''write'']), (''app/wiki'', [''read''])])]"
    by code_simp
  from post_resources_role_from_path[OF h, of spec_acl mem_apps "Some ''admin''" editor_world None]
    h e s
  show ?thesis by blast
qed

section \<open>The route registry never fails a grant\<close>

text \<open>
  The reply of a handler and the store it leaves depend on the store alone: the
  application collection and the call log have no part in them.
\<close>

lemma post_roles_validate_cong:
  fixes w :: "('s, 'r) world" and v :: "('s, 'q) world"
  assumes "store w = store v"
  shows "fst (post_roles_validate acl req w) = fst (post_roles_validate acl req v)"
    and "store (snd (post_roles_validate acl req w)) = store (snd (post_roles_validate acl req v))"
  using assms
  by (simp_all add: post_roles_validate_def acl_listRoles_def Let_def split: sum.splits)

lemma post_roles_addRole_cong:
  fixes w :: "('s, 'r) world" and v :: "('s, 'q) world"
  assumes "store w = store v"
  shows "fst (post_roles_addRole acl req w) = fst (post_roles_addRole acl req v)"
    and "store (snd (post_roles_addRole acl req w)) = store (snd (post_roles_addRole acl req v))"
  using assms
  by (simp_all add: post_roles_addRole_def acl_allow_def split: prod.splits)

lemma acl_listRoles_cong:
  fixes w :: "('s, 'r) world" and v :: "('s, 'q) world"
  assumes "store w = store v"
  shows "fst (acl_listRoles acl w) = fst (acl_listRoles acl v)"
    and "store (snd (acl_listRoles acl w)) = store (snd (acl_listRoles acl v))"
  using assms by (simp_all add: acl_listRoles_def)

lemma acl_whatResources_cong:
  fixes w :: "('s, 'r) world" and v :: "('s, 'q) world"
  assumes "store w = store v"
  shows "fst (acl_whatResources acl rn w) = fst (acl_whatResources acl rn v)"
    and "store (snd (acl_whatResources acl rn w)) = store (snd (acl_whatResources acl rn v))"
  using assms by (simp_all add: acl_whatResources_def)

lemma acl_existsRole_cong:
  fixes w :: "('s, 'r) world" and v :: "('s, 'q) world"
  assumes "store w = store v"
  shows "fst (acl_existsRole acl rn w) = fst (acl_existsRole acl rn v)"
    and "store (snd (acl_existsRole acl rn w)) = store (snd (acl_existsRole acl rn v))"
  using assms by (simp_all add: acl_existsRole_def)

lemma post_resources_addResources_cong:
  fixes w :: "('s, 'r) world" and v :: "('s, 'q) world"
  assumes "store w = store v"
  shows "fst (post_resources_addResources acl rn req w) = fst (post_resources_addResources acl rn req v)"
    and "store (snd (post_resources_addResources acl rn req w))
           = store (snd (post_resources_addResources acl rn req v))"
  using assms
  by (simp_all add: post_resources_addResources_def acl_allow_def Let_def split: prod.splits)

lemma post_roles_registry:
  fixes db1 :: "'r app_db" and db2 :: "'q app_db"
    and w :: "('s, 'r) world" and v :: "('s, 'q) world"
  assumes "store w = store v"
  shows "fst (post_roles acl db1 req w) = fst (post_roles acl db2 req v) \<and>
         store (snd (post_roles acl db1 req w)) = store (snd (post_roles acl db2 req v))"
proof -
  obtain e1 w1 where w1: "post_roles_validate acl req w = (e1, w1)"
    by (cases "post_roles_validate acl req w")
  obtain f1 v1 where v1: "post_roles_validate acl req v = (f1, v1)"
    by (cases "post_roles_validate acl req v")
  from post_roles_validate_cong[OF assms, of acl req] w1 v1
  have s1: "f1 = e1" "store w1 = store v1" by simp_all
  obtain e2 w2 where w2: "post_roles_addRole acl req w1 = (e2, w2)"
    by (cases "post_roles_addRole acl req w1")
  obtain f2 v2 where v2: "post_roles_addRole acl req v1 = (f2, v2)"
    by (cases "post_roles_addRole acl req v1")
  from post_roles_addRole_cong[OF s1(2), of acl req] w2 v2
  have s2: "f2 = e2" "store w2 = store v2" by simp_all
  show ?thesis
  proof (cases "body_resources (body req)")
    case None
    then show ?thesis
      using w1 v1 s1 w2 v2 s2
      by (simp add: post_roles_def updateAppRoutes_None split: option.splits)
  next
    case (Some rescs)
    obtain w3 where w3: "updateAppRoutes db1 req w2 = Some w3" "store w3 = store w2"
      using updateAppRoutes_Some[OF Some] by blast
    obtain v3 where v3: "updateAppRoutes db2 req v2 = Some v3" "store v3 = store v2"
      using updateAppRoutes_Some[OF Some] by blast
    have s3: "store w3 = store v3" using w3 v3 s2 by simp
    show ?thesis
      using w1 v1 s1 w2 v2 s2 w3 v3 acl_listRoles_cong[OF s3, of acl]
      by (auto simp: post_roles_def split: option.splits sum.splits prod.splits)
  qed
qed

lemma post_resources_registry:
  fixes db1 :: "'r app_db" and db2 :: "'q app_db"
    and w :: "('s, 'r) world" and v :: "('s, 'q) world"
  assumes "store w = store v"
  shows "fst (post_resources acl db1 req w) = fst (post_resources acl db2 req v) \<and>
         store (snd (post_resources acl db1 req w)) = store (snd (post_resources acl db2 req v))"
proof (cases "post_resources_validate req")
  case (Some err)
  then show ?thesis using assms by (simp add: post_resources_def)
next
  case None
  let ?rn = "or_empty (params_roleName req)"
  obtain e1 w1 where w1: "acl_existsRole acl ?rn w = (e1, w1)"
    by (cases "acl_existsRole acl ?rn w")
  obtain f1 v1 where v1: "acl_existsRole acl ?rn v = (f1, v1)"
    by (cases "acl_existsRole acl ?rn v")
  from acl_existsRole_cong[OF assms, of acl ?rn] w1 v1
  have s1: "f1 = e1" "store w1 = store v1" by simp_all
  obtain e2 q2 w2 where w2: "post_resources_addResources acl ?rn req w1 = ((e2, q2), w2)"
    by (cases "post_resources_addResources acl ?rn req w1") auto
  obtain f2 p2 v2 where v2: "post_resources_addResources acl ?rn req v1 = ((f2, p2), v2)"
    by (cases "post_resources_addResources acl ?rn req v1") auto
  from post_resources_addResources_cong[OF s1(2), of acl ?rn req] w2 v2
  have s2: "f2 = e2" "p2 = q2" "store w2 = store v2" by simp_all
  show ?thesis
  proof (cases "body_resources (body q2)")
    case bn: None
    then show ?thesis
      using None w1 v1 s1 w2 v2 s2
      by (simp add: post_resources_def Let_def updateAppRoutes_None split: option.splits)
  next
    case (Some rescs)
    obtain w3 where w3: "updateAppRoutes db1 q2 w2 = Some w3" "store w3 = store w2"
      using updateAppRoutes_Some[OF Some] by blast
    obtain v3 where v3: "updateAppRoutes db2 q2 v2 = Some v3" "store v3 = store v2"
      using updateAppRoutes_Some[OF Some] by blast
    have s3: "store w3 = store v3" using w3 v3 s2 by simp
    show ?thesis
      using None w1 v1 s1 w2 v2 s2 w3 v3 acl_whatResources_cong[OF s3, of acl ?rn]
      by (auto simp: post_resources_def Let_def split: option.splits sum.splits prod.splits)
  qed
qed

text \<open>
  Claim C6. For the two handlers that run \<open>updateAppRoutes\<close> (POST /roles and
  POST /roles/:roleName/resources), the reply, error or success, and the resulting
  access control store are the same for any two application collections, whatever
  their lookups and saves answer: a lookup or save that fails changes neither.
\<close>

theorem registry_failure_never_escalates:
  fixes db1 :: "'r app_db" and db2 :: "'q app_db"
    and w :: "('s, 'r) world" and v :: "('s, 'q) world"
  assumes "store w = store v"
  shows "fst (post_roles acl db1 req w) = fst (post_roles acl db2 req v) \<and>
         store (snd (post_roles acl db1 req w)) = store (snd (post_roles acl db2 req v)) \<and>
         fst (post_resources acl db1 req w) = fst (post_resources acl db2 req v) \<and>
         store (snd (post_resources acl db1 req w)) = store (snd (post_resources acl db2 req v))"
  using post_roles_registry[OF assms] post_resources_registry[OF assms] by blast

theorem registry_failure_never_escalates_witness:
  "store editor_world = store broken_world \<and>
   fst (post_resources spec_acl mem_apps grant_wiki_req editor_world)
     = fst (post_resources spec_acl broken_apps grant_wiki_req broken_world) \<and>
   fst (post_resources spec_acl broken_apps grant_wiki_req broken_world)
     = Json (Resources [(''docs'', [''read'', ''write'']), (''app/wiki'', [''read''])]) \<and>
   calls (snd (post_resources spec_acl broken_apps grant_wiki_req broken_world))
     = [ExistsRole ''editor'',
        Allow (AllowObjs [(body grant_wiki_req)\<lparr>roles := Some ''editor''\<rparr>]),
        FindOne ''app'', WhatResources ''editor'']"
proof -
  have h: "store editor_world = store broken_world"
    by (simp add: editor_world_def broken_world_def)
  have r: "fst (post_resources spec_acl broken_apps grant_wiki_req broken_world)
     = Json (Resources [(''docs'', [''read'', ''write'']), (''app/wiki'', [''read''])])"
    by code_simp
  have c: "calls (snd (post_resources spec_acl broken_apps grant_wiki_req broken_world))
     = [ExistsRole ''editor'',
        Allow (AllowObjs [(body grant_wiki_req)\<lparr>roles := Some ''editor''\<rparr>]),
        FindOne ''app'', WhatResources ''editor'']"
    by code_simp
  from registry_failure_never_escalates[OF h, of spec_acl mem_apps grant_wiki_req broken_apps]
    h r c
  show ?thesis by blast
qed

section \<open>Last-permission protection\<close>

text \<open>
  Claim C2, as amended. A DELETE-permission request on a resource that holds fewer
  than two permissions, that is a request that would remove its last permission,
  fails with a 400 error after \<open>existsRole\<close> and \<open>whatResources\<close> alone:
  \<open>removeAllow\<close> is not called and the store is unchanged. A request for one of two
  or more permissions of the resource is not refused: \<open>removeAllow\<close> is called for
  it and the store is the one \<open>removeAllow\<close> leaves.
\<close>

theorem delete_last_permission_refused:
  assumes "existsRole acl (or_empty (params_roleName req)) (store w) = None"
    and "whatResources acl (or_empty (params_roleName req)) (store w) = Inr result"
    and "map_of result (or_empty (params_0 req)) = Some ps"
  shows "(length ps < 2 \<longrightarrow>
            delete_permission acl req w =
              (Next (HttpError 400 (''The permission '' @ or_empty (params_permissionName req) @
                                    '' can't be remove because is the last'')),
               log (WhatResources (or_empty (params_roleName req)))
                 (log (ExistsRole (or_empty (params_roleName req))) w))) \<and>
         (2 \<le> length ps \<and> or_empty (params_permissionName req) \<in> set ps \<longrightarrow>
            store (snd (delete_permission acl req w)) =
              snd (removeAllow acl (or_empty (params_roleName req)) (or_empty (params_0 req))
                     (Str (or_empty (params_permissionName req))) (store w)) \<and>
            RemoveAllow (or_empty (params_roleName req)) (or_empty (params_0 req))
                (Str (or_empty (params_permissionName req)))
              \<in> set (calls (snd (delete_permission acl req w))))"
  using assms
  by (auto simp: delete_permission_def delete_permission_validate_def acl_call_defs Let_def
      split: prod.splits option.splits sum.splits)

theorem delete_last_permission_refused_witness:
  "existsRole spec_acl (or_empty (params_roleName delete_read_req)) (store reader_world) = None \<and>
   whatResources spec_acl (or_empty (params_roleName delete_read_req)) (store reader_world)
     = Inr [(''docs'', [''read''])] \<and>
   map_of [(''docs'', [''read''])] (or_empty (params_0 delete_read_req)) = Some [''read''] \<and>
   delete_permission spec_acl delete_read_req reader_world =
     (Next (HttpError 400 ''The permission read can't be remove because is the last''),
      reader_world\<lparr>calls := [ExistsRole ''editor'', WhatResources ''editor'']\<rparr>)"
proof -
  have a: "existsRole spec_acl (or_empty (params_roleName delete_read_req)) (store reader_world) = None"
    by code_simp
  have b: "whatResources spec_acl (or_empty (params_roleName delete_read_req)) (store reader_world)
     = Inr [(''docs'', [''read''])]"
    by code_simp
  have c: "map_of [(''docs'', [''read''])] (or_empty (params_0 delete_read_req)) = Some [''read'']"
    by code_simp
  have d: "log (WhatResources (or_empty (params_roleName delete_read_req)))
                 (log (ExistsRole (or_empty (params_roleName delete_read_req))) reader_world)
      = reader_world\<lparr>calls := [ExistsRole ''editor'', WhatResources ''editor'']\<rparr>"
    by code_simp
  have e: "''The permission '' @ or_empty (params_permissionName delete_read_req) @
                                    '' can't be remove because is the last''
       = ''The permission read can't be remove because is the last''"
    by code_simp
  from delete_last_permission_refused[OF a b c] a b c show ?thesis
    unfolding d e by simp
qed

theorem second_to_last_permission_removable:
  "whatResources spec_acl ''editor'' (store editor_world) = Inr [(''docs'', [''read'', ''write''])] \<and>
   fst (delete_permission spec_acl delete_write_req editor_world)
     = Json (ReadValue (Arr [''read''])) \<and>
   whatResources spec_acl ''editor''
       (store (snd (delete_permission spec_acl delete_write_req editor_world)))
     = Inr [(''docs'', [''read''])] \<and>
   fst (delete_permission spec_acl delete_read_req editor_world)
     = Json (ReadValue (Arr [''write'']))"
  by code_simp

section \<open>Replies are read back from the store\<close>

text \<open>
  \<open>updateAppRoutes\<close> leaves the store alone and adds no writing call to the log.
\<close>

lemma notify_frame:
  "\<exists>cs. calls (notify db own w found) = calls w @ cs \<and> (\<forall>c \<in> set cs. \<not> mutation c)"
  by (auto simp: notify_def db_save_def split: prod.splits sum.splits option.splits)

lemma foldl_notify_frame:
  "\<exists>cs. calls (foldl (notify db own) w found) = calls w @ cs \<and> (\<forall>c \<in> set cs. \<not> mutation c)"
proof (induction found arbitrary: w)
  case Nil
  then show ?case by simp
next
  case (Cons p ps)
  obtain cs1 where c1: "calls (notify db own w p) = calls w @ cs1" "\<forall>c \<in> set cs1. \<not> mutation c"
    using notify_frame by blast
  obtain cs2 where c2: "calls (foldl (notify db own) (notify db own w p) ps)
      = calls (notify db own w p) @ cs2" "\<forall>c \<in> set cs2. \<not> mutation c"
    using Cons.IH by blast
  have "calls (foldl (notify db own) w (p # ps)) = calls w @ (cs1 @ cs2)"
    using c1(1) c2(1) by simp
  moreover have "\<forall>c \<in> set (cs1 @ cs2). \<not> mutation c" using c1(2) c2(2) by auto
  ultimately show ?case by blast
qed

lemma lookups_frame:
  "\<exists>cs. calls (snd (lookups db ps w)) = calls w @ cs \<and> (\<forall>c \<in> set cs. \<not> mutation c)"
proof (induction ps arbitrary: w)
  case Nil
  then show ?case by simp
next
  case (Cons p ps)
  obtain cs where cs: "calls (snd (lookups db ps (log (FindOne p) w)))
      = calls (log (FindOne p) w) @ cs" "\<forall>c \<in> set cs. \<not> mutation c"
    using Cons.IH by blast
  have "calls (snd (lookups db (p # ps) w)) = calls w @ (FindOne p # cs)"
    using cs(1) by (simp add: db_findOne_def case_prod_beta)
  moreover have "\<forall>c \<in> set (FindOne p # cs). \<not> mutation c" using cs(2) by simp
  ultimately show ?case by blast
qed

lemma register_routes_frame:
  "\<exists>cs. calls (register_routes db rescs w) = calls w @ cs \<and> (\<forall>c \<in> set cs. \<not> mutation c)"
proof -
  obtain own h where n: "newAppRoutes rescs (heap w) = (own, h)"
    by (cases "newAppRoutes rescs (heap w)")
  let ?w1 = "snd (lookups db (map fst own) (w\<lparr>heap := h\<rparr>))"
  let ?found = "fst (lookups db (map fst own) (w\<lparr>heap := h\<rparr>))"
  obtain cs1 where c1: "calls ?w1 = calls (w\<lparr>heap := h\<rparr>) @ cs1" "\<forall>c \<in> set cs1. \<not> mutation c"
    using lookups_frame by blast
  obtain cs2 where c2: "calls (foldl (notify db own) ?w1 ?found) = calls ?w1 @ cs2"
    "\<forall>c \<in> set cs2. \<not> mutation c"
    using foldl_notify_frame by blast
  have "calls (register_routes db rescs w) = calls w @ (cs1 @ cs2)"
    using n c1(1) c2(1) by (simp add: register_routes_def case_prod_beta)
  moreover have "\<forall>c \<in> set (cs1 @ cs2). \<not> mutation c" using c1(2) c2(2) by auto
  ultimately show ?thesis by blast
qed

lemma updateAppRoutes_frame:
  assumes "updateAppRoutes db req w = Some w'"
  shows "store w' = store w \<and>
         (\<exists>cs. calls w' = calls w @ cs \<and> (\<forall>c \<in> set cs. \<not> mutation c))"
  using assms register_routes_frame[of db _ w]
  by (auto simp: updateAppRoutes_def split: option.splits)

text \<open>
  A successful run of each mutating handler: one writing call, then the query whose
  answer is the reply.
\<close>

lemma post_roles_Json:
  assumes "post_roles acl db req w = (Json p, w')"
  shows "\<exists>pre m post rs. calls w' = calls w @ pre @ m # post @ [ListRoles] \<and> mutation m \<and>
           (\<forall>c \<in> set pre \<union> set post. \<not> mutation c) \<and>
           listRoles acl (store w') = Inr rs \<and> p = Roles rs"
proof -
  obtain e1 w1 where v: "post_roles_validate acl req w = (e1, w1)"
    by (cases "post_roles_validate acl req w")
  with assms have e1: "e1 = None" by (auto simp: post_roles_def split: option.splits)
  from v e1 have w1: "store w1 = store w" "\<exists>c. calls w1 = calls w @ [c] \<and> \<not> mutation c"
    by (auto simp: post_roles_validate_def acl_call_defs Let_def split: if_splits sum.splits)
  obtain e2 w2 where a: "post_roles_addRole acl req w1 = (e2, w2)"
    by (cases "post_roles_addRole acl req w1")
  then have w2: "\<exists>m. calls w2 = calls w1 @ [m] \<and> mutation m"
    by (auto simp: post_roles_addRole_def acl_call_defs split: if_splits prod.splits)
  from assms v e1 a obtain w3 where u: "updateAppRoutes db req w2 = Some w3" and e2: "e2 = None"
    by (auto simp: post_roles_def split: option.splits)
  from updateAppRoutes_frame[OF u] obtain cs where
    w3: "store w3 = store w2" "calls w3 = calls w2 @ cs" "\<forall>c \<in> set cs. \<not> mutation c"
    by blast
  from assms v e1 a u e2 obtain rs where
    f: "listRoles acl (store w3) = Inr rs" "p = Roles rs" "w' = log ListRoles w3"
    by (auto simp: post_roles_def acl_call_defs split: sum.splits)
  from w1(2) obtain c where c: "calls w1 = calls w @ [c]" "\<not> mutation c" by blast
  from w2 obtain m where m: "calls w2 = calls w1 @ [m]" "mutation m" by blast
  have "calls w' = calls w @ [c] @ m # cs @ [ListRoles]"
    using f(3) w3(2) m(1) c(1) by simp
  moreover have "\<forall>x \<in> set [c] \<union> set cs. \<not> mutation x" using c(2) w3(3) by auto
  moreover have "listRoles acl (store w') = Inr rs" using f by simp
  ultimately show ?thesis using m(2) f(2) by blast
qed

lemma one_mutationI:
  assumes "after = before @ pre @ [m, q]" and "mutation m" and "\<forall>c \<in> set pre. \<not> mutation c"
  shows "\<exists>pre m post. after = before @ pre @ m # post @ [q] \<and> mutation m \<and>
           (\<forall>c \<in> set pre \<union> set post. \<not> mutation c)"
proof -
  have "after = before @ pre @ m # [] @ [q]" using assms(1) by simp
  moreover have "\<forall>c \<in> set pre \<union> set []. \<not> mutation c" using assms(3) by simp
  ultimately show ?thesis using assms(2) by blast
qed

lemma delete_role_Json:
  assumes "delete_role acl req w = (Json p, w')"
  shows "(\<exists>pre m post. calls w' = calls w @ pre @ m # post @ [ListRoles] \<and> mutation m \<and>
            (\<forall>c \<in> set pre \<union> set post. \<not> mutation c)) \<and>
         (\<exists>rs. listRoles acl (store w') = Inr rs \<and> p = Roles rs)"
proof -
  let ?rn = "or_empty (params_roleName req)"
  from assms have c: "calls w' = calls w @ [ExistsRole ?rn] @ [RemoveRole ?rn, ListRoles]"
    and r: "\<exists>rs. listRoles acl (store w') = Inr rs \<and> p = Roles rs"
    by (auto simp: delete_role_def delete_role_validate_def acl_call_defs Let_def
        split: if_splits option.splits sum.splits prod.splits check.splits jsval.splits)
  from one_mutationI[OF c] r show ?thesis by simp
qed

lemma post_permissions_Json:
  assumes "post_permissions acl req w = (Json p, w')"
  shows "(\<exists>pre m post. calls w' = calls w @ pre @ m # post
              @ [WhatResources (or_empty (params_roleName req))] \<and> mutation m \<and>
            (\<forall>c \<in> set pre \<union> set post. \<not> mutation c)) \<and>
         (\<exists>result. whatResources acl (or_empty (params_roleName req)) (store w') = Inr result \<and>
            p = ReadValue (js_get (heap w') result (or_empty (params_0 req))))"
proof -
  let ?rn = "or_empty (params_roleName req)"
  let ?res = "or_empty (params_0 req)"
  from assms have c: "calls w' = calls w @ [ExistsRole ?rn, WhatResources ?rn] @
      [Allow (AllowTriple ?rn (One ?res) (or_nil (permissions (body req)))), WhatResources ?rn]"
    and r: "\<exists>result. whatResources acl ?rn (store w') = Inr result \<and>
            p = ReadValue (js_get (heap w') result ?res)"
    by (auto simp: post_permissions_def post_permissions_validate_def acl_call_defs Let_def
        split: if_splits option.splits sum.splits prod.splits check.splits jsval.splits)
  from one_mutationI[OF c] r show ?thesis by simp
qed

lemma delete_permission_Json:
  assumes "delete_permission acl req w = (Json p, w')"
  shows "(\<exists>pre m post. calls w' = calls w @ pre @ m # post
              @ [WhatResources (or_empty (params_roleName req))] \<and> mutation m \<and>
            (\<forall>c \<in> set pre \<union> set post. \<not> mutation c)) \<and>
         (\<exists>result. whatResources acl (or_empty (params_roleName req)) (store w') = Inr result \<and>
            p = ReadValue (case js_get (heap w') result (or_empty (params_0 req)) of
                             Undefined \<Rightarrow> Arr [] | v \<Rightarrow> v))"
proof -
  let ?rn = "or_empty (params_roleName req)"
  let ?res = "or_empty (params_0 req)"
  from assms have c: "calls w' = calls w @ [ExistsRole ?rn, WhatResources ?rn] @
      [RemoveAllow ?rn ?res (Str (or_empty (params_permissionName req))), WhatResources ?rn]"
    and r: "\<exists>result. whatResources acl ?rn (store w') = Inr result \<and>
            p = ReadValue (case js_get (heap w') result ?res of Undefined \<Rightarrow> Arr [] | v \<Rightarrow> v)"
    by (auto simp: delete_permission_def delete_permission_validate_def acl_call_defs Let_def
        split: if_splits option.splits sum.splits prod.splits check.splits jsval.splits)
  from one_mutationI[OF c] r show ?thesis by simp
qed

lemma delete_resource_Json:
  assumes "delete_resource acl req w = (Json p, w')"
  shows "(\<exists>pre m post. calls w' = calls w @ pre @ m # post
              @ [WhatResources (or_empty (params_roleName req))] \<and> mutation m \<and>
            (\<forall>c \<in> set pre \<union> set post. \<not> mutation c)) \<and>
         (\<exists>result. whatResources acl (or_empty (params_roleName req)) (store w') = Inr result \<and>
            p = Resources result)"
proof -
  let ?rn = "or_empty (params_roleName req)"
  let ?res = "or_empty (params_0 req)"
  from assms have "\<exists>ps. calls w' = calls w @ [ExistsRole ?rn, WhatResources ?rn] @
      [RemoveAllow ?rn ?res (Val ps), WhatResources ?rn]"
    and r: "\<exists>result. whatResources acl ?rn (store w') = Inr result \<and> p = Resources result"
    by (auto simp: delete_resource_def delete_resource_validate_def acl_call_defs Let_def
        split: if_splits option.splits sum.splits prod.splits check.splits jsval.splits)
  then obtain ps where c: "calls w' = calls w @ [ExistsRole ?rn, WhatResources ?rn] @
      [RemoveAllow ?rn ?res (Val ps), WhatResources ?rn]" by blast
  from one_mutationI[OF c] r show ?thesis by simp
qed

lemma post_resources_Json:
  assumes "post_resources acl db req w = (Json p, w')"
  shows "(\<exists>pre m post. calls w' = calls w @ pre @ m # post
              @ [WhatResources (or_empty (params_roleName req))] \<and> mutation m \<and>
            (\<forall>c \<in> set pre \<union> set post. \<not> mutation c)) \<and>
         (\<exists>result. whatResources acl (or_empty (params_roleName req)) (store w') = Inr result \<and>
            p = Resources result)"
proof -
  let ?rn = "or_empty (params_roleName req)"
  from assms have v: "post_resources_validate req = None"
    by (auto simp: post_resources_def Let_def split: option.splits)
  obtain e1 w1 where x: "acl_existsRole acl ?rn w = (e1, w1)"
    by (cases "acl_existsRole acl ?rn w")
  with assms v have e1: "e1 = None"
    by (auto simp: post_resources_def Let_def split: option.splits)
  from x have w1: "calls w1 = calls w @ [ExistsRole ?rn]"
    by (auto simp: acl_call_defs)
  obtain e2 q2 w2 where a: "post_resources_addResources acl ?rn req w1 = ((e2, q2), w2)"
    by (cases "post_resources_addResources acl ?rn req w1") auto
  then have w2: "\<exists>m. calls w2 = calls w1 @ [m] \<and> mutation m"
    by (auto simp: post_resources_addResources_def acl_call_defs Let_def
        split: if_splits prod.splits)
  from assms v x e1 a obtain w3 where u: "updateAppRoutes db q2 w2 = Some w3" and e2: "e2 = None"
    by (auto simp: post_resources_def Let_def split: option.splits)
  from updateAppRoutes_frame[OF u] obtain cs where
    w3: "store w3 = store w2" "calls w3 = calls w2 @ cs" "\<forall>c \<in> set cs. \<not> mutation c"
    by blast
  from assms v x e1 a u e2 obtain result where
    f: "whatResources acl ?rn (store w3) = Inr result" "p = Resources result"
       "w' = log (WhatResources ?rn) w3"
    by (auto simp: post_resources_def Let_def acl_call_defs split: sum.splits)
  from w2 obtain m where m: "calls w2 = calls w1 @ [m]" "mutation m" by blast
  have "calls w' = calls w @ [ExistsRole ?rn] @ m # cs @ [WhatResources ?rn]"
    using f(3) w3(2) m(1) w1 by simp
  moreover have "\<forall>x \<in> set [ExistsRole ?rn] \<union> set cs. \<not> mutation x" using w3(3) by auto
  moreover have "whatResources acl ?rn (store w') = Inr result" using f by simp
  ultimately show ?thesis using m(2) f(2) by blast
qed

text \<open>
  Claim C5. When a mutating request succeeds, the body of the reply is the answer of
  a query on the store as the request leaves it: \<open>listRoles\<close> after creating or
  deleting a role, \<open>whatResources\<close> of the role after a change to resources or
  permissions (the whole object, or the entry of the resource). That query is the
  last call of the handler and comes after its single writing call.
\<close>

theorem reply_is_requeried:
  assumes "router ep acl db req w = (Json p, w')"
  shows "\<exists>pre m post q.
           calls w' = calls w @ pre @ m # post @ [q] \<and> mutation m \<and>
           (\<forall>c \<in> set pre \<union> set post. \<not> mutation c) \<and>
           (case ep of
              PostRoles \<Rightarrow>
                q = ListRoles \<and> (\<exists>rs. listRoles acl (store w') = Inr rs \<and> p = Roles rs)
            | DeleteRole \<Rightarrow>
                q = ListRoles \<and> (\<exists>rs. listRoles acl (store w') = Inr rs \<and> p = Roles rs)
            | PostResources \<Rightarrow>
                q = WhatResources (or_empty (params_roleName req)) \<and>
                (\<exists>result. whatResources acl (or_empty (params_roleName req)) (store w') = Inr result \<and>
                   p = Resources result)
            | PostPermissions \<Rightarrow>
                q = WhatResources (or_empty (params_roleName req)) \<and>
                (\<exists>result. whatResources acl (or_empty (params_roleName req)) (store w') = Inr result \<and>
                   p = ReadValue (js_get (heap w') result (or_empty (params_0 req))))
            | DeletePermission \<Rightarrow>
                q = WhatResources (or_empty (params_roleName req)) \<and>
                (\<exists>result. whatResources acl (or_empty (params_roleName req)) (store w') = Inr result \<and>
                   p = ReadValue (case js_get (heap w') result (or_empty (params_0 req)) of
                                    Undefined \<Rightarrow> Arr [] | v \<Rightarrow> v))
            | DeleteResource \<Rightarrow>
                q = WhatResources (or_empty (params_roleName req)) \<and>
                (\<exists>result. whatResources acl (or_empty (params_roleName req)) (store w') = Inr result \<and>
                   p = Resources result))"
proof (cases ep)
  case PostRoles
  with assms post_roles_Json[of acl db req w p w'] show ?thesis by auto
next
  case DeleteRole
  with assms delete_role_Json[of acl req w p w'] show ?thesis by auto
next
  case PostResources
  with assms post_resources_Json[of acl db req w p w'] show ?thesis by auto
next
  case PostPermissions
  with assms post_permissions_Json[of acl req w p w'] show ?thesis by auto
next
  case DeletePermission
  with assms delete_permission_Json[of acl req w p w'] show ?thesis by auto
next
  case DeleteResource
  with assms delete_resource_Json[of acl req w p w'] show ?thesis by auto
qed

theorem reply_is_requeried_witness:
  "fst (router PostResources spec_acl mem_apps grant_wiki_req editor_world)
     = Json (Resources [(''docs'', [''read'', ''write'']), (''app/wiki'', [''read''])]) \<and>
   (\<exists>pre m post.
      calls (snd (router PostResources spec_acl mem_apps grant_wiki_req editor_world))
        = calls editor_world @ pre @ m # post @ [WhatResources ''editor''] \<and> mutation m) \<and>
   whatResources spec_acl ''editor''
       (store (snd (router PostResources spec_acl mem_apps grant_wiki_req editor_world)))
     = Inr [(''docs'', [''read'', ''write'']), (''app/wiki'', [''read''])]"
proof -
  let ?r = "router PostResources spec_acl mem_apps grant_wiki_req editor_world"
  have f: "fst ?r = Json (Resources [(''docs'', [''read'', ''write'']), (''app/wiki'', [''read''])])"
    by code_simp
  then have h: "?r = (Json (Resources [(''docs'', [''read'', ''write'']), (''app/wiki'', [''read''])]),
      snd ?r)"
    by (metis prod.collapse)
  have n: "or_empty (params_roleName grant_wiki_req) = ''editor''"
    by code_simp
  from reply_is_requeried[OF h] f show ?thesis
    by (auto simp: n)
qed

section \<open>The order of the checks\<close>

lemma js_get_log [simp]: "js_get (heap (log c w)) = js_get (heap w)"
  by simp

text \<open>
  Claim C4, as amended. Every mutating endpoint runs its checks in a fixed order of
  its own, and the first check that fails decides the reply: the handler answers
  \<open>next\<close> with the error of that check, and no later check and no writing
  call is made. POST /roles tests the \<open>roles\<close> field, then the shape of the grant,
  then \<open>listRoles\<close> and that the role is new. POST /roles/:roleName/resources
  tests the shape of the grant, then \<open>existsRole\<close>. POST permissions tests
  \<open>existsRole\<close>, then the \<open>permissions\<close> field, then \<open>whatResources\<close> and the
  resource. DELETE /roles/:roleName refuses admin, then tests \<open>existsRole\<close>. DELETE
  permission tests \<open>existsRole\<close>, \<open>whatResources\<close>, the resource, the
  last-permission rule and then the permission. DELETE resource tests
  \<open>existsRole\<close>, \<open>whatResources\<close> and the resource. Each conjunct gives, for the
  case that the checks before pass and this one fails, the reply and the world,
  whose log holds the backend calls made so far and nothing more. The last two
  checks of DELETE permission are stated for a resource that the role has itself.
\<close>

theorem first_failing_check_wins:
  assumes "rn = or_empty (params_roleName req)"
    and "res = or_empty (params_0 req)"
    and "perm = or_empty (params_permissionName req)"
    and "b = body req"
    and "defect = (\<not> truthy_arr (allows b) \<and>
                    (\<not> truthy_arr (resources b) \<or> \<not> truthy_arr (permissions b)))"
    and "w1 = log (ExistsRole rn) w"
    and "w2 = log (WhatResources rn) w1"
  shows
    "(\<not> truthy_str (roles b) \<longrightarrow>
        post_roles acl db req w = (Next (HttpError 400 ''Roles required!''), w)) \<and>
     (truthy_str (roles b) \<and> defect \<longrightarrow>
        post_roles acl db req w =
          (Next (HttpError 400 ''Allows, or Resources and Permissions required!''), w)) \<and>
     (truthy_str (roles b) \<and> \<not> defect \<and> listRoles acl (store w) = Inl e \<longrightarrow>
        post_roles acl db req w = (Next e, log ListRoles w)) \<and>
     (truthy_str (roles b) \<and> \<not> defect \<and> listRoles acl (store w) = Inr rs \<and>
        or_empty (roles b) \<in> set rs \<longrightarrow>
        post_roles acl db req w =
          (Next (HttpError 400 (''The role '' @ or_empty (roles b) @ '' already exists.'')),
           log ListRoles w)) \<and>
     (defect \<longrightarrow>
        post_resources acl db req w =
          (Next (HttpError 400 ''Allows, or Resources and Permissions required!''), w)) \<and>
     (\<not> defect \<and> existsRole acl rn (store w) = Some e \<longrightarrow>
        post_resources acl db req w = (Next e, w1)) \<and>
     (existsRole acl rn (store w) = Some e \<longrightarrow>
        post_permissions acl req w = (Next e, w1)) \<and>
     (existsRole acl rn (store w) = None \<and> \<not> truthy_arr (permissions b) \<longrightarrow>
        post_permissions acl req w = (Next (HttpError 400 ''Permissions required!''), w1)) \<and>
     (existsRole acl rn (store w) = None \<and> truthy_arr (permissions b) \<and>
        whatResources acl rn (store w) = Inl e \<longrightarrow>
        post_permissions acl req w = (Next e, w2)) \<and>
     (existsRole acl rn (store w) = None \<and> truthy_arr (permissions b) \<and>
        whatResources acl rn (store w) = Inr result \<and> js_get (heap w) result res = Undefined \<longrightarrow>
        post_permissions acl req w =
          (Next (HttpError 400 (''The resource '' @ res @ '' in '' @ rn @ '' doesn't exist.'')), w2)) \<and>
     (rn = ''admin'' \<longrightarrow>
        delete_role acl req w = (Next (HttpError 403 ''The role admin is indestructible''), w)) \<and>
     (rn \<noteq> ''admin'' \<and> existsRole acl rn (store w) = Some e \<longrightarrow>
        delete_role acl req w = (Next e, w1)) \<and>
     (existsRole acl rn (store w) = Some e \<longrightarrow>
        delete_permission acl req w = (Next e, w1)) \<and>
     (existsRole acl rn (store w) = None \<and> whatResources acl rn (store w) = Inl e \<longrightarrow>
        delete_permission acl req w = (Next e, w2)) \<and>
     (existsRole acl rn (store w) = None \<and> whatResources acl rn (store w) = Inr result \<and>
        js_get (heap w) result res = Undefined \<longrightarrow>
        delete_permission acl req w =
          (Next (HttpError 400 (''The resource '' @ res @ '' in '' @ rn @ '' doesn't exist.'')), w2)) \<and>
     (existsRole acl rn (store w) = None \<and> whatResources acl rn (store w) = Inr result \<and>
        map_of result res = Some ps \<and> length ps < 2 \<longrightarrow>
        delete_permission acl req w =
          (Next (HttpError 400 (''The permission '' @ perm @ '' can't be remove because is the last'')),
           w2)) \<and>
     (existsRole acl rn (store w) = None \<and> whatResources acl rn (store w) = Inr result \<and>
        map_of result res = Some ps \<and> 2 \<le> length ps \<and> perm \<notin> set ps \<longrightarrow>
        delete_permission acl req w =
          (Next (HttpError 400 (''The permission '' @ perm @ '' in the resource '' @ res @
                               '' in '' @ rn @ '' doesn't exist.'')), w2)) \<and>
     (existsRole acl rn (store w) = Some e \<longrightarrow>
        delete_resource acl req w = (Next e, w1)) \<and>
     (existsRole acl rn (store w) = None \<and> whatResources acl rn (store w) = Inl e \<longrightarrow>
        delete_resource acl req w = (Next e, w2)) \<and>
     (existsRole acl rn (store w) = None \<and> whatResources acl rn (store w) = Inr result \<and>
        js_get (heap w) result res = Undefined \<longrightarrow>
        delete_resource acl req w =
          (Next (HttpError 400 (''The resource '' @ res @ '' in '' @ rn @ '' doesn't exist.'')), w2))"
proof -
  have post_roles:
    "\<not> truthy_str (roles b) \<longrightarrow>
        post_roles acl db req w = (Next (HttpError 400 ''Roles required!''), w)"
    "truthy_str (roles b) \<and> defect \<longrightarrow>
        post_roles acl db req w =
          (Next (HttpError 400 ''Allows, or Resources and Permissions required!''), w)"
    "truthy_str (roles b) \<and> \<not> defect \<and> listRoles acl (store w) = Inl e \<longrightarrow>
        post_roles acl db req w = (Next e, log ListRoles w)"
    "truthy_str (roles b) \<and> \<not> defect \<and> listRoles acl (store w) = Inr rs \<and>
        or_empty (roles b) \<in> set rs \<longrightarrow>
        post_roles acl db req w =
          (Next (HttpError 400 (''The role '' @ or_empty (roles b) @ '' already exists.'')),
           log ListRoles w)"
    using assms by (auto simp: post_roles_def post_roles_validate_def acl_call_defs Let_def)
  have post_resources:
    "defect \<longrightarrow>
        post_resources acl db req w =
          (Next (HttpError 400 ''Allows, or Resources and Permissions required!''), w)"
    "\<not> defect \<and> existsRole acl rn (store w) = Some e \<longrightarrow>
        post_resources acl db req w = (Next e, w1)"
    using assms
    by (auto simp: post_resources_def post_resources_validate_def acl_call_defs Let_def)
  have post_permissions:
    "existsRole acl rn (store w) = Some e \<longrightarrow>
        post_permissions acl req w = (Next e, w1)"
    "existsRole acl rn (store w) = None \<and> \<not> truthy_arr (permissions b) \<longrightarrow>
        post_permissions acl req w = (Next (HttpError 400 ''Permissions required!''), w1)"
    "existsRole acl rn (store w) = None \<and> truthy_arr (permissions b) \<and>
        whatResources acl rn (store w) = Inl e \<longrightarrow>
        post_permissions acl req w = (Next e, w2)"
    "existsRole acl rn (store w) = None \<and> truthy_arr (permissions b) \<and>
        whatResources acl rn (store w) = Inr result \<and> js_get (heap w) result res = Undefined \<longrightarrow>
        post_permissions acl req w =
          (Next (HttpError 400 (''The resource '' @ res @ '' in '' @ rn @ '' doesn't exist.'')), w2)"
    using assms
    by (auto simp: post_permissions_def post_permissions_validate_def acl_call_defs Let_def)
  have delete_role:
    "rn = ''admin'' \<longrightarrow>
        delete_role acl req w = (Next (HttpError 403 ''The role admin is indestructible''), w)"
    "rn \<noteq> ''admin'' \<and> existsRole acl rn (store w) = Some e \<longrightarrow>
        delete_role acl req w = (Next e, w1)"
    using assms
    by (auto simp: delete_role_def delete_role_validate_def acl_call_defs Let_def)
  have delete_permission:
    "existsRole acl rn (store w) = Some e \<longrightarrow>
        delete_permission acl req w = (Next e, w1)"
    "existsRole acl rn (store w) = None \<and> whatResources acl rn (store w) = Inl e \<longrightarrow>
        delete_permission acl req w = (Next e, w2)"
    "existsRole acl rn (store w) = None \<and> whatResources acl rn (store w) = Inr result \<and>
        js_get (heap w) result res = Undefined \<longrightarrow>
        delete_permission acl req w =
          (Next (HttpError 400 (''The resource '' @ res @ '' in '' @ rn @ '' doesn't exist.'')), w2)"
    "existsRole acl rn (store w) = None \<and> whatResources acl rn (store w) = Inr result \<and>
        map_of result res = Some ps \<and> length ps < 2 \<longrightarrow>
        delete_permission acl req w =
          (Next (HttpError 400 (''The permission '' @ perm @ '' can't be remove because is the last'')),
           w2)"
    "existsRole acl rn (store w) = None \<and> whatResources acl rn (store w) = Inr result \<and>
        map_of result res = Some ps \<and> 2 \<le> length ps \<and> perm \<notin> set ps \<longrightarrow>
        delete_permission acl req w =
          (Next (HttpError 400 (''The permission '' @ perm @ '' in the resource '' @ res @
                               '' in '' @ rn @ '' doesn't exist.'')), w2)"
    using assms
    by (auto simp: delete_permission_def delete_permission_validate_def acl_call_defs Let_def)
  have delete_resource:
    "existsRole acl rn (store w) = Some e \<longrightarrow>
        delete_resource acl req w = (Next e, w1)"
    "existsRole acl rn (store w) = None \<and> whatResources acl rn (store w) = Inl e \<longrightarrow>
        delete_resource acl req w = (Next e, w2)"
    "existsRole acl rn (store w) = None \<and> whatResources acl rn (store w) = Inr result \<and>
        js_get (heap w) result res = Undefined \<longrightarrow>
        delete_resource acl req w =
          (Next (HttpError 400 (''The resource '' @ res @ '' in '' @ rn @ '' doesn't exist.'')), w2)"
    using assms
    by (auto simp: delete_resource_def delete_resource_validate_def acl_call_defs Let_def)
  from post_roles post_resources post_permissions delete_role delete_permission delete_resource
  show ?thesis by blast
qed

theorem first_failing_check_wins_witness:
  "or_empty (params_roleName ghost_req) = ''ghost'' \<and>
   existsRole spec_acl ''ghost'' (store editor_world) = Some (NotFoundError ''ghost'') \<and>
   \<not> truthy_arr (allows (body ghost_req)) \<and> \<not> truthy_arr (resources (body ghost_req)) \<and>
   post_permissions spec_acl ghost_req editor_world
     = (Next (NotFoundError ''ghost''), log (ExistsRole ''ghost'') editor_world) \<and>
   delete_permission spec_acl ghost_req editor_world
     = (Next (NotFoundError ''ghost''), log (ExistsRole ''ghost'') editor_world) \<and>
   delete_resource spec_acl ghost_req editor_world
     = (Next (NotFoundError ''ghost''), log (ExistsRole ''ghost'') editor_world) \<and>
   post_resources spec_acl mem_apps ghost_req editor_world
     = (Next (HttpError 400 ''Allows, or Resources and Permissions required!''), editor_world)"
proof -
  have n: "''ghost'' = or_empty (params_roleName ghost_req)"
    by code_simp
  have e: "existsRole spec_acl ''ghost'' (store editor_world) = Some (NotFoundError ''ghost'')"
    by code_simp
  have b: "\<not> truthy_arr (allows (body ghost_req))" "\<not> truthy_arr (resources (body ghost_req))"
    by code_simp+
  from first_failing_check_wins[OF n refl refl refl refl refl refl,
      where acl = spec_acl and db = mem_apps and w = editor_world
        and e = "NotFoundError ''ghost''"] n e b
  show ?thesis by simp
qed

text \<open>
  The order is not structural, existence, semantic. A POST permissions request
  without a \<open>permissions\<close> field on a role that does not exist is answered with the
  error of \<open>existsRole\<close>, not with \<open>Permissions required!\<close>; and a DELETE of a
  permission that a resource does not have, on a resource with a single permission,
  is answered with the last-permission error.
\<close>

theorem existence_checked_before_structure:
  "permissions (body ghost_req) = None \<and>
   existsRole spec_acl ''ghost'' (store editor_world) = Some (NotFoundError ''ghost'') \<and>
   post_permissions spec_acl ghost_req editor_world
     = (Next (NotFoundError ''ghost''), editor_world\<lparr>calls := [ExistsRole ''ghost'']\<rparr>) \<and>
   fst (delete_permission spec_acl delete_publish_req reader_world)
     = Next (HttpError 400 ''The permission publish can't be remove because is the last'')"
  by code_simp

section \<open>Deleting a resource\<close>




section \<open>A grant of no permission\<close>

text \<open>
  Claim C1. The claim does not hold of the code. POST /roles tests
  \<open>!req.body.permissions\<close>, which an empty array passes. For a role that
  \<open>listRoles\<close> does not hold, a \<open>resources\<close> array and \<open>permissions: []\<close>, the
  check \<open>Allows, or Resources and Permissions required!\<close> lets the request
  through, the handler calls \<open>allow(role, resources, [])\<close>, and the reply is that
  of any other grant: the role list when \<open>allow\<close> and \<open>listRoles\<close> succeed. The
  store is the one \<open>allow\<close> leaves. On the store as the spec describes it the new
  role then has each resource with no permission at all, after a mutation that
  has completed successfully.
\<close>

theorem empty_permissions_reach_the_store:
  assumes "truthy_str (roles (body req))"
    and "allows (body req) = None"
    and "resources (body req) = Some rescs"
    and "permissions (body req) = Some []"
    and "listRoles acl (store w) = Inr rs"
    and "or_empty (roles (body req)) \<notin> set rs"
    and "g = AllowTriple (or_empty (roles (body req))) (Many rescs) []"
  shows "Allow g \<in> set (calls (snd (post_roles acl db req w))) \<and>
         store (snd (post_roles acl db req w)) = snd (allow acl g (store w)) \<and>
         fst (post_roles acl db req w) =
           (case allow acl g (store w) of
              (Some err, s') \<Rightarrow> Next err
            | (None, s') \<Rightarrow>
                (case listRoles acl s' of
                   Inl err \<Rightarrow> Next err
                 | Inr roles' \<Rightarrow> Json (Roles roles')))"
proof -
  have v: "post_roles_validate acl req w = (None, log ListRoles w)"
    using assms
    by (simp add: post_roles_validate_def acl_call_defs Let_def truthy_arr_def)
  obtain err s' where al: "allow acl g (store w) = (err, s')"
    by (cases "allow acl g (store w)")
  let ?w2 = "log (Allow g) (log ListRoles w\<lparr>store := s'\<rparr>)"
  have a: "post_roles_addRole acl req (log ListRoles w) = (err, ?w2)"
    using assms al
    by (simp add: post_roles_addRole_def acl_call_defs truthy_arr_def or_nil_def)
  have "body_resources (body req) = Some rescs"
    using assms by (simp add: body_resources_def truthy_arr_def)
  then have u: "updateAppRoutes db req ?w2 = Some (register_routes db rescs ?w2)"
    by (simp add: updateAppRoutes_def)
  have c: "Allow g \<in> set (calls (register_routes db rescs ?w2))"
    by (rule register_routes_calls_mono) simp
  show ?thesis
    using v a u c al
    by (auto simp: post_roles_def acl_call_defs split: option.splits sum.splits)
qed

theorem empty_permissions_reach_the_store_witness:
  "truthy_str (roles (body grant_nothing_req)) \<and>
   permissions (body grant_nothing_req) = Some [] \<and>
   listRoles spec_acl (store editor_world) = Inr [''admin'', ''editor''] \<and>
   Allow (AllowTriple ''guest'' (Many [''docs'']) [])
     \<in> set (calls (snd (post_roles spec_acl mem_apps grant_nothing_req editor_world))) \<and>
   fst (post_roles spec_acl mem_apps grant_nothing_req editor_world)
     = Json (Roles [''admin'', ''editor'', ''guest'']) \<and>
   whatResources spec_acl ''guest''
       (store (snd (post_roles spec_acl mem_apps grant_nothing_req editor_world)))
     = Inr [(''docs'', [])]"
proof -
  have h: "truthy_str (roles (body grant_nothing_req))"
    "allows (body grant_nothing_req) = None"
    "resources (body grant_nothing_req) = Some [''docs'']"
    "permissions (body grant_nothing_req) = Some []"
    "listRoles spec_acl (store editor_world) = Inr [''admin'', ''editor'']"
    "or_empty (roles (body grant_nothing_req)) \<notin> set [''admin'', ''editor'']"
    by code_simp+
  have g: "AllowTriple ''guest'' (Many [''docs'']) []
      = AllowTriple (or_empty (roles (body grant_nothing_req))) (Many [''docs'']) []"
    by code_simp
  have r: "fst (post_roles spec_acl mem_apps grant_nothing_req editor_world)
     = Json (Roles [''admin'', ''editor'', ''guest''])"
    by code_simp
  have s: "whatResources spec_acl ''guest''
       (store (snd (post_roles spec_acl mem_apps grant_nothing_req editor_world)))
     = Inr [(''docs'', [])]"
    by code_simp
  from empty_permissions_reach_the_store[OF h g, of mem_apps] h r s
  show ?thesis by simp
qed

section \<open>The prefixes that updateAppRoutes looks up\<close>

text \<open>
  On a heap where nothing has set \<open>Object.prototype.routes\<close>, and for resources
  whose prefix is not a property of \<open>Object.prototype\<close>, the loop does what its
  comment says: the heap stays as it is, the own properties of \<open>newAppRoutes\<close>
  are the prefixes of the resources that do not start with \<open>/\<close>, and each holds,
  in order, the resources of that prefix.
\<close>

lemma fresh_objects_lookup:
  "fresh_objects own \<Longrightarrow> map_of own k = Some app \<Longrightarrow> \<exists>rs. app = NewObject (Some rs)"
  by (auto simp: fresh_objects_def dest: map_of_SomeD)

lemma set_update_subset: "set (AList.update k v al) \<subseteq> insert (k, v) (set al)"
  by (induction al) auto

lemma fresh_objects_update:
  "fresh_objects own \<Longrightarrow> fresh_objects (AList.update k (NewObject (Some rs)) own)"
  using set_update_subset[of k "NewObject (Some rs)" own]
  by (auto simp: fresh_objects_def)

lemma push_route_plain:
  assumes "proto_routes h = None" and "fresh_objects own"
    and "\<not> leading_slash r \<longrightarrow> map_of object_prototype (appName r) = None"
  shows "push_route (own, h) r =
           (if leading_slash r then own
            else AList.update (appName r) (NewObject (Some (own_routes own (appName r) @ [r]))) own,
            h)"
proof (cases "leading_slash r")
  case True
  then show ?thesis by (simp add: push_route_def)
next
  case False
  with assms(3) have plain: "map_of object_prototype (appName r) = None" by simp
  then have np: "appName r \<noteq> ''__proto__''"
    by (auto simp: object_prototype_def)
  show ?thesis
  proof (cases "map_of own (appName r)")
    case None
    then have "read_app h own (appName r) = NewObject None"
      using plain assms(1) by (simp add: read_app_def js_inherited_def)
    then show ?thesis
      using False None np assms(1) by (simp add: push_route_def own_routes_def)
  next
    case (Some app)
    then obtain rs where rs: "app = NewObject (Some rs)"
      using assms(2) fresh_objects_lookup by blast
    with Some have "read_app h own (appName r) = NewObject (Some rs)"
      by (simp add: read_app_def)
    then show ?thesis
      using False Some rs np by (simp add: push_route_def own_routes_def)
  qed
qed

lemma own_routes_update:
  "own_routes (AList.update k (NewObject (Some rs)) own) p = (if p = k then rs else own_routes own p)"
  by (simp add: own_routes_def update_conv')

lemma foldl_push_route_plain:
  assumes "proto_routes h = None" and "fresh_objects own"
    and "\<forall>r \<in> set rescs. \<not> leading_slash r \<longrightarrow> map_of object_prototype (appName r) = None"
  shows "snd (foldl push_route (own, h) rescs) = h \<and>
         fresh_objects (fst (foldl push_route (own, h) rescs)) \<and>
         own_routes (fst (foldl push_route (own, h) rescs)) p
           = own_routes own p @ filter (\<lambda>x. \<not> leading_slash x \<and> appName x = p) rescs \<and>
         fst ` set (fst (foldl push_route (own, h) rescs))
           = fst ` set own \<union> appName ` {r \<in> set rescs. \<not> leading_slash r}"
  using assms
proof (induction rescs arbitrary: own)
  case Nil
  then show ?case by simp
next
  case (Cons r rescs)
  let ?own1 = "if leading_slash r then own
            else AList.update (appName r) (NewObject (Some (own_routes own (appName r) @ [r]))) own"
  have step: "push_route (own, h) r = (?own1, h)"
    using Cons.prems by (simp add: push_route_plain)
  have f1: "fresh_objects ?own1"
    using Cons.prems(2) by (simp add: fresh_objects_update)
  have rest: "\<forall>r \<in> set rescs. \<not> leading_slash r \<longrightarrow> map_of object_prototype (appName r) = None"
    using Cons.prems(3) by simp
  note ih = Cons.IH[OF Cons.prems(1) f1 rest]
  have r1: "own_routes ?own1 p
      = own_routes own p @ (if \<not> leading_slash r \<and> appName r = p then [r] else [])"
    by (auto simp: own_routes_update)
  have k1: "fst ` set ?own1 = fst ` set own \<union> (if leading_slash r then {} else {appName r})"
    by (auto simp: dom_update)
  show ?case
    using ih step r1 k1 by auto
qed

lemma newAppRoutes_plain:
  assumes "proto_routes h = None"
    and "\<forall>r \<in> set rescs. \<not> leading_slash r \<longrightarrow> map_of object_prototype (appName r) = None"
  shows "snd (newAppRoutes rescs h) = h \<and>
         own_routes (fst (newAppRoutes rescs h)) p
           = filter (\<lambda>x. \<not> leading_slash x \<and> appName x = p) rescs \<and>
         set (map fst (fst (newAppRoutes rescs h)))
           = appName ` {r \<in> set rescs. \<not> leading_slash r}"
proof -
  have "fresh_objects []" by (simp add: fresh_objects_def)
  from foldl_push_route_plain[OF assms(1) this assms(2), of p]
  show ?thesis by (simp add: newAppRoutes_def own_routes_def)
qed

text \<open>
  Claim C10. The claim does not hold of the code at a prefix that
  \<open>Object.prototype\<close> has a property for. For the resources \<open>__proto__/x\<close> and
  \<open>app/y\<close>, neither of which starts with \<open>/\<close>, \<open>newAppRoutes['__proto__']\<close> reads
  \<open>Object.prototype\<close> and the assignment makes no own property, so no \<open>findOne\<close>
  is issued for the prefix \<open>__proto__\<close>; the route \<open>__proto__/x\<close> is pushed to a
  new array \<open>Object.prototype.routes\<close>, which the object of \<open>app\<close> inherits, so
  \<open>app/y\<close> is pushed there too; and the document of the application \<open>app\<close> is
  saved with both routes. The array stays on \<open>Object.prototype\<close> after the call.
  The handler of POST /roles/:roleName/resources reaches \<open>updateAppRoutes\<close> with
  this body and leaves the same document and the same heap.
\<close>

theorem proto_prefix_is_not_looked_up:
  "body_resources (body proto_req) = Some [''__proto__/x'', ''app/y''] \<and>
   updateAppRoutes mem_apps proto_req editor_world
     = Some (editor_world
          \<lparr>apps := [(''app'', AppDoc (Some [''__proto__/x'', ''app/y'']))],
           heap := \<lparr>proto_routes = Some [''__proto__/x'', ''app/y''], builtin_routes = []\<rparr>,
           calls := [FindOne ''app'',
                     Save ''app'' (AppDoc (Some [''__proto__/x'', ''app/y'']))]\<rparr>) \<and>
   apps (snd (post_resources spec_acl mem_apps proto_req editor_world))
     = [(''app'', AppDoc (Some [''__proto__/x'', ''app/y'']))] \<and>
   heap (snd (post_resources spec_acl mem_apps proto_req editor_world))
     = \<lparr>proto_routes = Some [''__proto__/x'', ''app/y''], builtin_routes = []\<rparr>"
  by code_simp

end
